theory Spec2Isabelle
  imports Complex_Main "HOL-Library.AList" "HOL-Library.Sublist"
begin

section \<open>Python values\<close>

text \<open>
  The scripts handle decoded JSON: \<^verbatim>\<open>None\<close>, booleans, integers, floats, strings, lists
  and dictionaries. A dictionary is an association list in insertion order, read with
  \<open>map_of\<close> and written with \<open>AList.update\<close> (an existing key keeps its place, a new
  one is appended, as in Python). A float is an exact real number here.
\<close>

datatype json =
    JNull
  | JBool bool
  | JInt int
  | JFloat real
  | JStr string
  | JArr "json list"
  | JObj "(string \<times> json) list"

text \<open>The exceptions the modelled code can raise.\<close>

datatype py_error =
    AttributeError
  | TypeError
  | KeyError
  | ZeroDivisionError
  | OSError
  | ParseError
  | UnicodeDecodeError
  | JSONDecodeError

text \<open>Python's truth value of an object, as \<^verbatim>\<open>if x\<close> and \<^verbatim>\<open>not x\<close> test it.\<close>

fun truthy :: "json \<Rightarrow> bool" where
  "truthy JNull = False"
| "truthy (JBool b) = b"
| "truthy (JInt n) = (n \<noteq> 0)"
| "truthy (JFloat x) = (x \<noteq> 0)"
| "truthy (JStr s) = (s \<noteq> [])"
| "truthy (JArr xs) = (xs \<noteq> [])"
| "truthy (JObj kvs) = (kvs \<noteq> [])"

text \<open>\<^verbatim>\<open>d.get(k, dflt)\<close> on a dictionary.\<close>

definition obj_get :: "(string \<times> json) list \<Rightarrow> string \<Rightarrow> json \<Rightarrow> json" where
  "obj_get kvs k dflt = (case map_of kvs k of None \<Rightarrow> dflt | Some v \<Rightarrow> v)"

text \<open>
  \<^verbatim>\<open>x.get(k, dflt)\<close> on any decoded value: only a dictionary has \<^verbatim>\<open>get\<close>, every
  other value raises \<^verbatim>\<open>AttributeError\<close>.
\<close>

fun dict_get :: "json \<Rightarrow> string \<Rightarrow> json \<Rightarrow> py_error + json" where
  "dict_get (JObj kvs) k dflt = Inr (obj_get kvs k dflt)"
| "dict_get _ k dflt = Inl AttributeError"

text \<open>
  \<^verbatim>\<open>for x in v\<close>: a list yields its elements, a dictionary its keys, a string its
  characters; the other values are not iterable (\<^verbatim>\<open>TypeError\<close>, also from \<^verbatim>\<open>len\<close>).
\<close>

fun py_iter :: "json \<Rightarrow> py_error + json list" where
  "py_iter (JArr xs) = Inr xs"
| "py_iter (JObj kvs) = Inr (map (\<lambda>kv. JStr (fst kv)) kvs)"
| "py_iter (JStr s) = Inr (map (\<lambda>c. JStr [c]) s)"
| "py_iter _ = Inl TypeError"

text \<open>
  What a call of \<^verbatim>\<open>requests.get\<close> or \<^verbatim>\<open>requests.post\<close> does: it raises (no
  connection, timeout), or it returns a response with a status code and a body;
  \<^verbatim>\<open>response.json()\<close> is the decoded body, \<open>None\<close> when the body is not JSON and
  \<^verbatim>\<open>json()\<close> raises.
\<close>

datatype http_reply = Raises | Reply int "json option"

section \<open>The rate-limited MusicBrainz client (spotify\_playlist\_checker.py)\<close>

text \<open>
  \<^verbatim>\<open>MB_RATE_LIMIT = 1.0\<close>: seconds between requests.
\<close>

definition MB_RATE_LIMIT :: real where
  "MB_RATE_LIMIT = 1"

text \<open>
  What a run of the client does is recorded as a trace of events, each with the clock
  reading at which it happens: a \<^verbatim>\<open>time.sleep(d)\<close>, the assignment to
  \<^verbatim>\<open>self.last_request_time\<close>, the start of \<^verbatim>\<open>self.session.get(...)\<close>
  and its return.
\<close>

datatype event =
    Sleep real
  | SetLast real
  | Get real
  | Done real

text \<open>
  The client object together with the wall clock it reads. Time is a real number of
  seconds (the idealised clock): \<^verbatim>\<open>time.time()\<close> returns \<open>clock\<close>, statements other
  than \<^verbatim>\<open>time.sleep\<close> and the HTTP request take no time.
\<close>

record mb_client =
  clock :: real
  last_request_time :: real
  trace :: "event list"

text \<open>\<^verbatim>\<open>MusicBrainzClient.__init__\<close>: \<^verbatim>\<open>self.last_request_time = 0\<close>.\<close>

definition init_client :: "real \<Rightarrow> mb_client" where
  "init_client now = \<lparr>clock = now, last_request_time = 0, trace = []\<rparr>"

text \<open>
  \<^verbatim>\<open>time.sleep(d)\<close> blocks for \<open>d\<close> seconds and then for \<open>extra\<close> more (what the
  scheduler adds; \<open>0\<close> for an exact sleep).
\<close>

definition time_sleep :: "real \<Rightarrow> real \<Rightarrow> mb_client \<Rightarrow> mb_client" where
  "time_sleep d extra w = w\<lparr>clock := clock w + d + extra, trace := trace w @ [Sleep d]\<rparr>"

text \<open>
  \<^verbatim>\<open>
  def _rate_limit(self) -> None:
      elapsed = time.time() - self.last_request_time
      if elapsed < MB_RATE_LIMIT:
          time.sleep(MB_RATE_LIMIT - elapsed)
      self.last_request_time = time.time()
  \<close>
\<close>

definition rate_limit :: "real \<Rightarrow> mb_client \<Rightarrow> mb_client" where
  "rate_limit extra w =
     (let elapsed = clock w - last_request_time w;
          w1 = (if elapsed < MB_RATE_LIMIT then time_sleep (MB_RATE_LIMIT - elapsed) extra w else w)
      in w1\<lparr>last_request_time := clock w1, trace := trace w1 @ [SetLast (clock w1)]\<rparr>)"

text \<open>
  \<^verbatim>\<open>self.session.get(...)\<close>: the request is issued at the current clock reading and
  returns \<open>duration\<close> seconds later. It does not touch \<^verbatim>\<open>last_request_time\<close>.
\<close>

definition session_get :: "real \<Rightarrow> mb_client \<Rightarrow> mb_client" where
  "session_get duration w =
     w\<lparr>clock := clock w + duration,
       trace := trace w @ [Get (clock w), Done (clock w + duration)]\<rparr>"

text \<open>
  The surroundings of one call through the client: how long the caller was busy since
  the previous operation (\<open>idle\<close>), how much longer than asked a sleep takes
  (\<open>oversleep\<close>), and how long the HTTP request takes (\<open>duration\<close>).
\<close>

record call_env =
  idle :: real
  oversleep :: real
  duration :: real

text \<open>
  Both request methods, \<^verbatim>\<open>search_artist_by_spotify_id\<close> and \<^verbatim>\<open>get_artist_urls\<close>,
  start with \<^verbatim>\<open>self._rate_limit()\<close>, build their parameters and then call
  \<^verbatim>\<open>self.session.get\<close> inside \<^verbatim>\<open>try\<close>; a \<^verbatim>\<open>RequestException\<close> is caught. Their
  effect on the client and the clock is the same.
\<close>

definition client_request :: "call_env \<Rightarrow> mb_client \<Rightarrow> mb_client" where
  "client_request env w = session_get (duration env) (rate_limit (oversleep env) w)"

definition pass_time :: "real \<Rightarrow> mb_client \<Rightarrow> mb_client" where
  "pass_time d w = w\<lparr>clock := clock w + d\<rparr>"

text \<open>A sequence of calls, the caller idling before each one.\<close>

fun run_calls :: "mb_client \<Rightarrow> call_env list \<Rightarrow> mb_client" where
  "run_calls w [] = w"
| "run_calls w (env # envs) = run_calls (client_request env (pass_time (idle env) w)) envs"

text \<open>The clock readings at which requests were issued, in order.\<close>

fun issue_times :: "event list \<Rightarrow> real list" where
  "issue_times [] = []"
| "issue_times (Get t # es) = t # issue_times es"
| "issue_times (e # es) = issue_times es"

text \<open>The values assigned to \<^verbatim>\<open>last_request_time\<close>, in order.\<close>

fun stamps :: "event list \<Rightarrow> real list" where
  "stamps [] = []"
| "stamps (SetLast t # es) = t # stamps es"
| "stamps (e # es) = stamps es"

text \<open>Consecutive entries of a list of times are at least \<open>d\<close> apart.\<close>

fun spaced :: "real \<Rightarrow> real list \<Rightarrow> bool" where
  "spaced d [] = True"
| "spaced d [t] = True"
| "spaced d (t # u # ts) = (d \<le> u - t \<and> spaced d (u # ts))"

text \<open>
  The spec's wording of the update order, for comparison with the code: within the
  events of one call, the assignment to \<^verbatim>\<open>last_request_time\<close> comes after the request
  has been issued.
\<close>

fun updated_after_issue :: "event list \<Rightarrow> bool" where
  "updated_after_issue [] = True"
| "updated_after_issue (SetLast t # es) = False"
| "updated_after_issue (Get t # es) = True"
| "updated_after_issue (e # es) = updated_after_issue es"


text \<open>Three concrete calls: a slow response, then two quick ones.\<close>

definition slow_call :: call_env where
  "slow_call = \<lparr>idle = 0, oversleep = 0, duration = 5\<rparr>"

definition quick_call :: call_env where
  "quick_call = \<lparr>idle = 0, oversleep = 0, duration = 1 / 4\<rparr>"

definition later_call :: call_env where
  "later_call = \<lparr>idle = 1 / 2, oversleep = 0, duration = 1 / 4\<rparr>"

text \<open>
  The invariant of a run: the requests issued so far are spaced, and none was issued
  later than the stored stamp.
\<close>

definition stamped :: "mb_client \<Rightarrow> bool" where
  "stamped w \<longleftrightarrow>
     spaced MB_RATE_LIMIT (issue_times (trace w)) \<and>
     (\<forall>t \<in> set (issue_times (trace w)). t \<le> last_request_time w)"

section \<open>Album import (import\_nfo\_albums.py)\<close>

text \<open>
  The module-level configuration: \<^verbatim>\<open>QUALITY_PROFILE_ID = 1\<close>,
  \<^verbatim>\<open>METADATA_PROFILE_ID = 1\<close>, \<^verbatim>\<open>ROOT_FOLDER_PATH = "/music"\<close>, which the user edits.
\<close>

record config =
  QUALITY_PROFILE_ID :: int
  METADATA_PROFILE_ID :: int
  ROOT_FOLDER_PATH :: string

definition default_config :: config where
  "default_config =
     \<lparr>QUALITY_PROFILE_ID = 1, METADATA_PROFILE_ID = 1, ROOT_FOLDER_PATH = ''/music''\<rparr>"

text \<open>
  The library manager as one call of \<^verbatim>\<open>add_album_to_lidarr\<close> sees it: the reply to
  \<^verbatim>\<open>GET /api/v1/album\<close>, to \<^verbatim>\<open>GET /api/v1/search\<close> for a search term, and to
  \<^verbatim>\<open>POST /api/v1/album\<close> for a payload.
\<close>

record lidarr_env =
  get_album :: http_reply
  get_search :: "string \<Rightarrow> http_reply"
  post_album :: "json \<Rightarrow> http_reply"

text \<open>
  \<^verbatim>\<open>
  for album in albums:
      if album.get('foreignAlbumId') == mb_id:
          return True
  \<close>
\<close>

fun album_loop :: "string \<Rightarrow> json list \<Rightarrow> py_error + bool" where
  "album_loop mb_id [] = Inr False"
| "album_loop mb_id (album # albums) =
     (case dict_get album ''foreignAlbumId'' JNull of
        Inl e \<Rightarrow> Inl e
      | Inr v \<Rightarrow> if v = JStr mb_id then Inr True else album_loop mb_id albums)"

text \<open>
  \<^verbatim>\<open>check_album_exists\<close>: the whole body is inside \<^verbatim>\<open>try\<close>, every exception is
  caught and the function then returns \<^verbatim>\<open>False\<close>.
\<close>

definition check_album_exists :: "lidarr_env \<Rightarrow> string \<Rightarrow> bool" where
  "check_album_exists env mb_id =
     (case get_album env of
        Raises \<Rightarrow> False
      | Reply status body \<Rightarrow>
          if status = 200 then
            (case body of
               None \<Rightarrow> False
             | Some albums \<Rightarrow>
                 (case py_iter albums of
                    Inl e \<Rightarrow> False
                  | Inr xs \<Rightarrow> (case album_loop mb_id xs of Inl e \<Rightarrow> False | Inr b \<Rightarrow> b)))
          else False)"

text \<open>
  The head of the search loop's body:
  \<^verbatim>\<open>
  if result.get('album'):
      current_album = result['album']
      current_artist = result.get('artist')
  else:
      current_album = result
      current_artist = result.get('artist')
  \<close>
\<close>

definition result_album :: "json \<Rightarrow> py_error + json \<times> json" where
  "result_album result =
     (case dict_get result ''album'' JNull of
        Inl e \<Rightarrow> Inl e
      | Inr a \<Rightarrow>
          (case dict_get result ''artist'' JNull of
             Inl e \<Rightarrow> Inl e
           | Inr current_artist \<Rightarrow> Inr (if truthy a then a else result, current_artist)))"

text \<open>
  \<^verbatim>\<open>
  foreign_id = current_album.get('foreignAlbumId', '')
  if foreign_id == mb_id or foreign_id.endswith(mb_id):
  \<close>
  \<^verbatim>\<open>endswith\<close> exists on strings only; \<open>suffix xs ys\<close> says that \<open>ys\<close> ends with \<open>xs\<close>.
\<close>

definition is_our_album :: "string \<Rightarrow> json \<Rightarrow> py_error + bool" where
  "is_our_album mb_id current_album =
     (case dict_get current_album ''foreignAlbumId'' (JStr []) of
        Inl e \<Rightarrow> Inl e
      | Inr foreign_id \<Rightarrow>
          if foreign_id = JStr mb_id then Inr True
          else (case foreign_id of JStr s \<Rightarrow> Inr (suffix mb_id s) | _ \<Rightarrow> Inl AttributeError))"

text \<open>
  The search loop, \<^verbatim>\<open>for i, result in enumerate(results)\<close> with its \<^verbatim>\<open>break\<close> at the
  first match; \<open>None\<close> when the loop ends with \<^verbatim>\<open>album_data\<close> still \<^verbatim>\<open>None\<close>.
\<close>

fun scan_results :: "string \<Rightarrow> json list \<Rightarrow> py_error + (json \<times> json) option" where
  "scan_results mb_id [] = Inr None"
| "scan_results mb_id (result # rest) =
     (case result_album result of
        Inl e \<Rightarrow> Inl e
      | Inr (current_album, current_artist) \<Rightarrow>
          (case is_our_album mb_id current_album of
             Inl e \<Rightarrow> Inl e
           | Inr matched \<Rightarrow>
               if matched then Inr (Some (current_album, current_artist))
               else scan_results mb_id rest))"

text \<open>
  One of the four statements
  \<^verbatim>\<open>
  if not artist_data.get('qualityProfileId'):
      artist_data['qualityProfileId'] = QUALITY_PROFILE_ID
  \<close>
\<close>

definition backfill_field :: "string \<Rightarrow> json \<Rightarrow> json \<Rightarrow> py_error + json" where
  "backfill_field k dflt artist_data =
     (case artist_data of
        JObj kvs \<Rightarrow>
          Inr (if \<not> truthy (obj_get kvs k JNull) then JObj (AList.update k dflt kvs)
               else artist_data)
      | _ \<Rightarrow> Inl AttributeError)"

text \<open>
  ``Ensure artist has required fields'': \<^verbatim>\<open>qualityProfileId\<close>,
  \<^verbatim>\<open>metadataProfileId\<close>, \<^verbatim>\<open>rootFolderPath\<close> and \<^verbatim>\<open>monitored\<close>, in this order.
\<close>

definition ensure_artist_fields :: "config \<Rightarrow> json \<Rightarrow> py_error + json" where
  "ensure_artist_fields cfg artist_data =
     (case backfill_field ''qualityProfileId'' (JInt (QUALITY_PROFILE_ID cfg)) artist_data of
        Inl e \<Rightarrow> Inl e
      | Inr a1 \<Rightarrow>
     (case backfill_field ''metadataProfileId'' (JInt (METADATA_PROFILE_ID cfg)) a1 of
        Inl e \<Rightarrow> Inl e
      | Inr a2 \<Rightarrow>
     (case backfill_field ''rootFolderPath'' (JStr (ROOT_FOLDER_PATH cfg)) a2 of
        Inl e \<Rightarrow> Inl e
      | Inr a3 \<Rightarrow> backfill_field ''monitored'' (JBool True) a3)))"

text \<open>The run-wide defaults of the four fields.\<close>

definition run_defaults :: "config \<Rightarrow> (string \<times> json) list" where
  "run_defaults cfg =
     [(''qualityProfileId'', JInt (QUALITY_PROFILE_ID cfg)),
      (''metadataProfileId'', JInt (METADATA_PROFILE_ID cfg)),
      (''rootFolderPath'', JStr (ROOT_FOLDER_PATH cfg)),
      (''monitored'', JBool True)]"

text \<open>The payload of the \<^verbatim>\<open>POST\<close>, field by field as the source builds it.\<close>

definition album_payload :: "config \<Rightarrow> string \<Rightarrow> (string \<times> json) list \<Rightarrow> json \<Rightarrow> json" where
  "album_payload cfg mb_id album_data artist_data =
     JObj [(''title'', obj_get album_data ''title'' JNull),
           (''foreignAlbumId'', JStr mb_id),
           (''monitored'', JBool True),
           (''anyReleaseOk'', JBool True),
           (''profileId'', JInt (QUALITY_PROFILE_ID cfg)),
           (''duration'', obj_get album_data ''duration'' (JInt 0)),
           (''albumType'', obj_get album_data ''albumType'' (JStr [])),
           (''secondaryTypes'', obj_get album_data ''secondaryTypes'' (JArr [])),
           (''mediumCount'', obj_get album_data ''mediumCount'' (JInt 0)),
           (''ratings'', obj_get album_data ''ratings''
                           (JObj [(''votes'', JInt 0), (''value'', JFloat 0)])),
           (''releaseDate'', obj_get album_data ''releaseDate'' JNull),
           (''releases'', obj_get album_data ''releases'' (JArr [])),
           (''genres'', obj_get album_data ''genres'' (JArr [])),
           (''media'', obj_get album_data ''media'' (JArr [])),
           (''artist'', artist_data),
           (''images'', obj_get album_data ''images'' (JArr [])),
           (''links'', obj_get album_data ''links'' (JArr [])),
           (''addOptions'', JObj [(''searchForNewAlbum'', JBool False)])]"

text \<open>
  From \<^verbatim>\<open>artist_data = album_data.get('artist')\<close> to the end of the \<^verbatim>\<open>try\<close> block: the
  artist sub-record of the matched album (not the search result's own \<^verbatim>\<open>artist\<close>
  entry, which the assignment discards) is checked, backfilled and submitted. The result
  is the returned flag and the payload handed to \<^verbatim>\<open>requests.post\<close>, if it was called.
\<close>

definition submit_album ::
  "config \<Rightarrow> lidarr_env \<Rightarrow> string \<Rightarrow> json \<Rightarrow> py_error + bool \<times> json option" where
  "submit_album cfg env mb_id album_data =
     (case album_data of
        JObj kvs \<Rightarrow>
          (let artist_data = obj_get kvs ''artist'' JNull in
           if \<not> truthy artist_data then Inr (False, None)
           else
             (case ensure_artist_fields cfg artist_data of
                Inl e \<Rightarrow> Inl e
              | Inr artist_data' \<Rightarrow>
                  (let payload = album_payload cfg mb_id kvs artist_data' in
                   (case post_album env payload of
                      Raises \<Rightarrow> Inr (False, Some payload)
                    | Reply status body \<Rightarrow>
                        Inr (status = 200 \<or> status = 201, Some payload)))))
      | _ \<Rightarrow> Inl AttributeError)"

text \<open>
  The \<^verbatim>\<open>try\<close> block of \<^verbatim>\<open>add_album_to_lidarr\<close>. The search term is
  \<^verbatim>\<open>f"lidarr:{mb_id}"\<close>. When no result matches, the function prints the first three
  identifiers and returns \<^verbatim>\<open>False\<close>; an exception while printing them is caught
  below and gives \<^verbatim>\<open>False\<close> as well.
\<close>

definition search_and_add ::
  "config \<Rightarrow> lidarr_env \<Rightarrow> string \<Rightarrow> py_error + bool \<times> json option" where
  "search_and_add cfg env mb_id =
     (case get_search env (''lidarr:'' @ mb_id) of
        Raises \<Rightarrow> Inr (False, None)
      | Reply status body \<Rightarrow>
          if status \<noteq> 200 then Inr (False, None)
          else
            (case body of
               None \<Rightarrow> Inl JSONDecodeError
             | Some results \<Rightarrow>
                 if \<not> truthy results then Inr (False, None)
                 else
                   (case py_iter results of
                      Inl e \<Rightarrow> Inl e
                    | Inr rs \<Rightarrow>
                        (case scan_results mb_id rs of
                           Inl e \<Rightarrow> Inl e
                         | Inr None \<Rightarrow> Inr (False, None)
                         | Inr (Some (album_data, artist_data)) \<Rightarrow>
                             if \<not> truthy album_data then Inr (False, None)
                             else submit_album cfg env mb_id album_data))))"

text \<open>
  \<^verbatim>\<open>add_album_to_lidarr\<close> returns \<^verbatim>\<open>None\<close> when the album already exists,
  \<^verbatim>\<open>True\<close> when it was added and \<^verbatim>\<open>False\<close> otherwise; \<^verbatim>\<open>except Exception\<close> turns
  every exception of the \<^verbatim>\<open>try\<close> block into \<^verbatim>\<open>False\<close>. The second component is the
  payload that was posted, if any.
\<close>

definition add_album_to_lidarr ::
  "config \<Rightarrow> lidarr_env \<Rightarrow> string \<Rightarrow> bool option \<times> json option" where
  "add_album_to_lidarr cfg env mb_id =
     (if check_album_exists env mb_id then (None, None)
      else
        (case search_and_add cfg env mb_id of
           Inl e \<Rightarrow> (Some False, None)
         | Inr (b, posted) \<Rightarrow> (Some b, posted)))"

text \<open>The artist sub-record inside the payload that a call posted.\<close>

definition posted_artist :: "bool option \<times> json option \<Rightarrow> json option" where
  "posted_artist outcome =
     (case snd outcome of
        Some (JObj payload) \<Rightarrow> map_of payload ''artist''
      | _ \<Rightarrow> None)"

text \<open>
  A stub library manager for concrete runs: an empty catalogue, a fixed list of search
  results, and a \<^verbatim>\<open>POST\<close> that answers 201.
\<close>

definition remote_artist :: json where
  "remote_artist = JObj [(''artistName'', JStr ''Nina''), (''qualityProfileId'', JInt 0),
                         (''monitored'', JBool False), (''rootFolderPath'', JStr ''/data'')]"

definition remote_album :: "string \<Rightarrow> json" where
  "remote_album fid = JObj [(''title'', JStr ''Pastel''), (''foreignAlbumId'', JStr fid),
                            (''artist'', remote_artist)]"

definition other_album :: json where
  "other_album = JObj [(''title'', JStr ''Other''), (''foreignAlbumId'', JStr ''abc''),
                       (''artist'', remote_artist)]"

definition stub_lidarr :: "json \<Rightarrow> lidarr_env" where
  "stub_lidarr results =
     \<lparr>get_album = Reply 200 (Some (JArr [])),
      get_search = (\<lambda>term. Reply 200 (Some results)),
      post_album = (\<lambda>payload. Reply 201 None)\<rparr>"

section \<open>Sidecar files and the batch (import\_nfo\_albums.py)\<close>

text \<open>
  An element of a parsed XML tree as \<^verbatim>\<open>xml.etree.ElementTree\<close> gives it: its tag, its
  \<^verbatim>\<open>text\<close> (\<^verbatim>\<open>None\<close> when the element has no text before its first child) and its
  children in document order.
\<close>

datatype elem = Elem string "string option" "elem list"

text \<open>The first element with tag \<open>t\<close> in a forest, in document order.\<close>

fun find_first :: "string \<Rightarrow> elem list \<Rightarrow> elem option" where
  "find_first t [] = None"
| "find_first t (Elem tg tx ch # es) =
     (if tg = t then Some (Elem tg tx ch)
      else (case find_first t ch of Some e \<Rightarrow> Some e | None \<Rightarrow> find_first t es))"

text \<open>\<^verbatim>\<open>doc.find('.//t')\<close>: the first descendant of the root with tag \<open>t\<close>.\<close>

definition et_find :: "elem \<Rightarrow> string \<Rightarrow> elem option" where
  "et_find doc t = (case doc of Elem tg tx ch \<Rightarrow> find_first t ch)"

text \<open>
  \<^verbatim>\<open>str.strip()\<close> removes leading and trailing whitespace. Among the characters
  below 256, \<^verbatim>\<open>str.isspace\<close> holds of tab, line feed, vertical tab, form feed,
  carriage return, the separators \<open>0x1C\<close> to \<open>0x1F\<close>, the space, next line
  (\<open>0x85\<close>) and the no-break space (\<open>0xA0\<close>).
\<close>

definition is_space :: "char \<Rightarrow> bool" where
  "is_space c \<longleftrightarrow> c \<in> set [CHR 0x09, CHR 0x0A, CHR 0x0B, CHR 0x0C, CHR 0x0D,
                              CHR 0x1C, CHR 0x1D, CHR 0x1E, CHR 0x1F, CHR '' '',
                              CHR 0x85, CHR 0xA0]"

definition py_strip :: "string \<Rightarrow> string" where
  "py_strip s = rev (dropWhile is_space (rev (dropWhile is_space s)))"

text \<open>
  The fallback's regular expressions,
  \<^verbatim>\<open><musicbrainzreleasegroupid>([a-f0-9-]{36})</musicbrainzreleasegroupid>\<close> and the same
  with \<^verbatim>\<open>musicbrainzalbumid\<close>, under \<^verbatim>\<open>re.IGNORECASE\<close>: the tag in any case, then 36
  characters that are hexadecimal digits of either case or hyphens, then the closing tag.
  \<open>match_tagged_id\<close> matches at the start of the text, \<open>re_search_tagged_id\<close> is
  \<^verbatim>\<open>re.search\<close> (the leftmost match) and returns \<^verbatim>\<open>group(1)\<close>.
\<close>

definition ascii_lower :: "char \<Rightarrow> char" where
  "ascii_lower c =
     (case map_of (zip ''ABCDEFGHIJKLMNOPQRSTUVWXYZ'' ''abcdefghijklmnopqrstuvwxyz'') c of
        Some l \<Rightarrow> l
      | None \<Rightarrow> c)"

definition id_char :: "char \<Rightarrow> bool" where
  "id_char c \<longleftrightarrow> c \<in> set ''abcdefABCDEF0123456789-''"

definition match_tagged_id :: "string \<Rightarrow> string \<Rightarrow> string option" where
  "match_tagged_id tag s =
     (let opening = ''<'' @ tag @ ''>'';
          closing = ''</'' @ tag @ ''>'';
          rest = drop (length opening) s;
          token = take 36 rest;
          after = drop 36 rest
      in if map ascii_lower (take (length opening) s) = map ascii_lower opening
            \<and> length token = 36 \<and> list_all id_char token
            \<and> map ascii_lower (take (length closing) after) = map ascii_lower closing
         then Some token else None)"

fun re_search_tagged_id :: "string \<Rightarrow> string \<Rightarrow> string option" where
  "re_search_tagged_id tag [] = match_tagged_id tag []"
| "re_search_tagged_id tag (c # cs) =
     (case match_tagged_id tag (c # cs) of
        Some token \<Rightarrow> Some token
      | None \<Rightarrow> re_search_tagged_id tag cs)"

text \<open>
  A sidecar file as the extractor sees it: what \<^verbatim>\<open>ET.parse(nfo_path)\<close> does (the
  parsed tree, \<^verbatim>\<open>ParseError\<close> for malformed markup, or another exception such as
  \<^verbatim>\<open>OSError\<close> for a file that cannot be opened), and what reading the file as
  UTF-8 text does.
\<close>

record nfo_file =
  et_parse :: "py_error + elem"
  read_text :: "py_error + string"

text \<open>
  \<^verbatim>\<open>
  mb_id = doc.find('.//tag')
  if mb_id is not None and mb_id.text:
  \<close>
  gives the element's text when the element exists and its text is a non-empty string.
\<close>

definition tag_text :: "elem \<Rightarrow> string \<Rightarrow> string option" where
  "tag_text doc t =
     (case et_find doc t of
        Some (Elem tg (Some tx) ch) \<Rightarrow> if tx \<noteq> [] then Some tx else None
      | _ \<Rightarrow> None)"

text \<open>
  The structured path: \<^verbatim>\<open>return mb_id.text.strip()\<close> for the release-group tag, else
  for the album tag, else the final \<^verbatim>\<open>return None\<close>.
\<close>

definition extract_from_tree :: "elem \<Rightarrow> string option" where
  "extract_from_tree doc =
     (case tag_text doc ''musicbrainzreleasegroupid'' of
        Some tx \<Rightarrow> Some (py_strip tx)
      | None \<Rightarrow>
          (case tag_text doc ''musicbrainzalbumid'' of
             Some tx \<Rightarrow> Some (py_strip tx)
           | None \<Rightarrow> None))"

text \<open>
  The fallback inside \<^verbatim>\<open>except ET.ParseError\<close>: any exception while reading is caught
  and printed, and the function returns \<^verbatim>\<open>None\<close>.
\<close>

definition extract_by_regex :: "py_error + string \<Rightarrow> string option" where
  "extract_by_regex contents =
     (case contents of
        Inl e \<Rightarrow> None
      | Inr content \<Rightarrow>
          (case re_search_tagged_id ''musicbrainzreleasegroupid'' content of
             Some token \<Rightarrow> Some token
           | None \<Rightarrow> re_search_tagged_id ''musicbrainzalbumid'' content))"

text \<open>
  \<^verbatim>\<open>extract_musicbrainz_id\<close>: only \<^verbatim>\<open>ET.ParseError\<close> is caught around the
  structured path; any other exception of \<^verbatim>\<open>ET.parse\<close> leaves the function.
\<close>

definition extract_musicbrainz_id :: "nfo_file \<Rightarrow> py_error + string option" where
  "extract_musicbrainz_id f =
     (case et_parse f of
        Inr doc \<Rightarrow> Inr (extract_from_tree doc)
      | Inl e \<Rightarrow> if e = ParseError then Inr (extract_by_regex (read_text f)) else Inl e)"

text \<open>The four counters of \<^verbatim>\<open>main\<close>.\<close>

record counters =
  added :: nat
  failed :: nat
  skipped :: nat
  already_exists :: nat

text \<open>
  An enumerated \<^verbatim>\<open>album.nfo\<close> file: its path, the file, and the library manager as it
  answers while this item is processed.
\<close>

record work_item =
  nfo_path :: string
  nfo :: nfo_file
  lidarr :: lidarr_env

text \<open>
  The body of \<^verbatim>\<open>for nfo_path in nfo_files\<close>. It is not inside any \<^verbatim>\<open>try\<close>: an
  exception of \<^verbatim>\<open>extract_musicbrainz_id\<close> leaves \<^verbatim>\<open>main\<close>. Printing is taken not to
  fail.
  \<^verbatim>\<open>
  mb_id = extract_musicbrainz_id(nfo_path)
  if not mb_id:
      skipped += 1
      continue
  result = add_album_to_lidarr(mb_id)
  if result is True:   added += 1
  elif result is None: already_exists += 1
  else:                failed += 1
  \<close>
\<close>

definition process_item :: "config \<Rightarrow> counters \<Rightarrow> work_item \<Rightarrow> py_error + counters" where
  "process_item cfg c item =
     (case extract_musicbrainz_id (nfo item) of
        Inl e \<Rightarrow> Inl e
      | Inr mb_id \<Rightarrow>
          (case mb_id of
             None \<Rightarrow> Inr (c\<lparr>skipped := skipped c + 1\<rparr>)
           | Some ident \<Rightarrow>
               if ident = [] then Inr (c\<lparr>skipped := skipped c + 1\<rparr>)
               else
                 (case fst (add_album_to_lidarr cfg (lidarr item) ident) of
                    Some True \<Rightarrow> Inr (c\<lparr>added := added c + 1\<rparr>)
                  | None \<Rightarrow> Inr (c\<lparr>already_exists := already_exists c + 1\<rparr>)
                  | Some False \<Rightarrow> Inr (c\<lparr>failed := failed c + 1\<rparr>))))"

fun main_loop :: "config \<Rightarrow> counters \<Rightarrow> work_item list \<Rightarrow> py_error + counters" where
  "main_loop cfg c [] = Inr c"
| "main_loop cfg c (item # items) =
     (case process_item cfg c item of
        Inl e \<Rightarrow> Inl e
      | Inr c' \<Rightarrow> main_loop cfg c' items)"

text \<open>\<^verbatim>\<open>main\<close>, from the enumerated files to the counters its summary prints.\<close>

definition main :: "config \<Rightarrow> work_item list \<Rightarrow> py_error + counters" where
  "main cfg nfo_files =
     main_loop cfg \<lparr>added = 0, failed = 0, skipped = 0, already_exists = 0\<rparr> nfo_files"

text \<open>
  Concrete sidecar files and work items: a well-formed file with a release-group
  identifier, one without identifiers, one whose release-group tag holds only spaces, a
  malformed one that is not valid UTF-8, a malformed one (the root element is never
  closed) in which the fallback finds the identifier, and one that cannot be opened.
\<close>

definition uuid :: string where
  "uuid = ''0a1b2c3d-4e5f-6789-abcd-ef0123456789''"

definition tagged_text :: string where
  "tagged_text = ''<album><title>Pastel</title><musicbrainzreleasegroupid>'' @ uuid
                   @ ''</musicbrainzreleasegroupid></album>''"

definition untagged_text :: string where
  "untagged_text = ''<album><title>Untitled</title></album>''"

definition unclosed_text :: string where
  "unclosed_text = ''<album><musicbrainzreleasegroupid>'' @ uuid
                     @ ''</musicbrainzreleasegroupid>''"

definition blank_tag_text :: string where
  "blank_tag_text = ''<album><title>Pastel</title>''
      @ ''<musicbrainzreleasegroupid>   </musicbrainzreleasegroupid>''
      @ ''<musicbrainzalbumid>'' @ uuid @ ''</musicbrainzalbumid></album>''"

definition blank_tag_tree :: elem where
  "blank_tag_tree =
     Elem ''album'' None
       [Elem ''title'' (Some ''Pastel'') [],
        Elem ''musicbrainzreleasegroupid'' (Some ''   '') [],
        Elem ''musicbrainzalbumid'' (Some uuid) []]"

text \<open>The file can be opened: \<^verbatim>\<open>ET.parse\<close> returns a tree or raises \<^verbatim>\<open>ParseError\<close>.\<close>

definition parses_or_malformed :: "nfo_file \<Rightarrow> bool" where
  "parses_or_malformed f = (case et_parse f of Inr doc \<Rightarrow> True | Inl e \<Rightarrow> e = ParseError)"

text \<open>The sum of the four counters.\<close>

definition counted :: "counters \<Rightarrow> nat" where
  "counted c = added c + already_exists c + failed c + skipped c"

definition tagged_tree :: elem where
  "tagged_tree =
     Elem ''album'' None
       [Elem ''title'' (Some ''Pastel'') [],
        Elem ''musicbrainzreleasegroupid'' (Some uuid) []]"

definition untagged_tree :: elem where
  "untagged_tree = Elem ''album'' None [Elem ''title'' (Some ''Untitled'') []]"

definition item_added :: work_item where
  "item_added = \<lparr>nfo_path = ''/music/a/album.nfo'',
                  nfo = \<lparr>et_parse = Inr tagged_tree, read_text = Inr tagged_text\<rparr>,
                  lidarr = stub_lidarr (JArr [JObj [(''album'', remote_album uuid)]])\<rparr>"

definition item_untagged :: work_item where
  "item_untagged = \<lparr>nfo_path = ''/music/b/album.nfo'',
                     nfo = \<lparr>et_parse = Inr untagged_tree, read_text = Inr untagged_text\<rparr>,
                     lidarr = stub_lidarr (JArr [])\<rparr>"

definition item_existing :: work_item where
  "item_existing = \<lparr>nfo_path = ''/music/c/album.nfo'',
                     nfo = \<lparr>et_parse = Inr tagged_tree, read_text = Inr tagged_text\<rparr>,
                     lidarr = (stub_lidarr (JArr []))
                       \<lparr>get_album := Reply 200 (Some (JArr [remote_album uuid]))\<rparr>\<rparr>"

definition item_failing :: work_item where
  "item_failing = \<lparr>nfo_path = ''/music/d/album.nfo'',
                    nfo = \<lparr>et_parse = Inr tagged_tree, read_text = Inr tagged_text\<rparr>,
                    lidarr = (stub_lidarr (JArr []))\<lparr>get_search := (\<lambda>term. Raises)\<rparr>\<rparr>"

definition item_malformed :: work_item where
  "item_malformed = \<lparr>nfo_path = ''/music/e/album.nfo'',
                      nfo = \<lparr>et_parse = Inl ParseError, read_text = Inl UnicodeDecodeError\<rparr>,
                      lidarr = stub_lidarr (JArr [])\<rparr>"

definition item_recovered :: work_item where
  "item_recovered = \<lparr>nfo_path = ''/music/g/album.nfo'',
                      nfo = \<lparr>et_parse = Inl ParseError, read_text = Inr unclosed_text\<rparr>,
                      lidarr = stub_lidarr (JArr [JObj [(''album'', remote_album uuid)]])\<rparr>"

definition item_unreadable :: work_item where
  "item_unreadable = \<lparr>nfo_path = ''/music/f/album.nfo'',
                       nfo = \<lparr>et_parse = Inl OSError, read_text = Inl OSError\<rparr>,
                       lidarr = stub_lidarr (JArr [])\<rparr>"

section \<open>Adding an artist (mb\_lidarr\_import.py)\<close>

text \<open>\<^verbatim>\<open>sub in s\<close> on strings: \<open>sub\<close> occurs in \<open>s\<close> as a contiguous piece.\<close>

fun contains :: "string \<Rightarrow> string \<Rightarrow> bool" where
  "contains sub [] = (sub = [])"
| "contains sub (c # cs) = (prefix sub (c # cs) \<or> contains sub cs)"

text \<open>
  \<^verbatim>\<open>x['k']\<close> with a string key: \<^verbatim>\<open>KeyError\<close> on a dictionary without the key,
  \<^verbatim>\<open>TypeError\<close> on every value that is not a dictionary.
\<close>

fun subscript :: "json \<Rightarrow> string \<Rightarrow> py_error + json" where
  "subscript (JObj kvs) k = (case map_of kvs k of None \<Rightarrow> Inl KeyError | Some v \<Rightarrow> Inr v)"
| "subscript _ k = Inl TypeError"

text \<open>
  What \<^verbatim>\<open>requests.post\<close> to \<^verbatim>\<open>/api/v1/artist\<close> does: it raises, or it returns a
  response with a status code. The second component is \<^verbatim>\<open>str(e.response.json())\<close>, the
  printed form of the decoded body in which \<^verbatim>\<open>add_artist\<close> looks for the duplicate
  message; it is \<open>None\<close> when the body is not JSON and \<^verbatim>\<open>json()\<close> raises.
\<close>

datatype artist_post = PostRaises | PostReturns int "string option"

text \<open>
  The two messages \<^verbatim>\<open>add_artist\<close> prints: ``Artist already in Lidarr'' and
  ``Error adding artist: ...''.
\<close>

datatype add_log = AlreadyInLidarr | ErrorAdding

text \<open>
  The payload, built before the \<^verbatim>\<open>try\<close>: \<^verbatim>\<open>artist_data['foreignArtistId']\<close> and
  \<^verbatim>\<open>artist_data['artistName']\<close> raise when the search result lacks them.
\<close>

definition artist_payload :: "json \<Rightarrow> string \<Rightarrow> int \<Rightarrow> int \<Rightarrow> bool \<Rightarrow> bool \<Rightarrow> py_error + json" where
  "artist_payload artist_data root_folder quality_profile metadata_profile monitor search =
     (case subscript artist_data ''foreignArtistId'' of
        Inl e \<Rightarrow> Inl e
      | Inr foreign_id \<Rightarrow>
          (case subscript artist_data ''artistName'' of
             Inl e \<Rightarrow> Inl e
           | Inr artist_name \<Rightarrow>
               Inr (JObj [(''foreignArtistId'', foreign_id),
                          (''artistName'', artist_name),
                          (''qualityProfileId'', JInt quality_profile),
                          (''metadataProfileId'', JInt metadata_profile),
                          (''rootFolderPath'', JStr root_folder),
                          (''monitored'', JBool monitor),
                          (''addOptions'',
                             JObj [(''monitor'', JStr (if monitor then ''all'' else ''none'')),
                                   (''searchForMissingAlbums'', JBool search)])])))"

text \<open>
  \<^verbatim>\<open>
  try:
      resp = requests.post(...)
      resp.raise_for_status()
      return True
  except requests.exceptions.HTTPError as e:
      if e.response.status_code == 400:
          error = e.response.json()
          if 'Artist already exists' in str(error):
              print("Artist already in Lidarr")
              return False
      print(f"Error adding artist: {e}")
      return False
  except Exception as e:
      print(f"Error adding artist: {e}")
      return False
  \<close>
  \<^verbatim>\<open>raise_for_status\<close> raises \<^verbatim>\<open>HTTPError\<close> for the status codes 400 to 599. An
  exception of \<^verbatim>\<open>e.response.json()\<close> is raised inside the handler and leaves the
  function. The result is the returned flag and the messages printed.
\<close>

definition add_artist ::
  "(json \<Rightarrow> artist_post) \<Rightarrow> json \<Rightarrow> string \<Rightarrow> int \<Rightarrow> int \<Rightarrow> bool \<Rightarrow> bool
     \<Rightarrow> py_error + bool \<times> add_log list" where
  "add_artist post artist_data root_folder quality_profile metadata_profile monitor search =
     (case artist_payload artist_data root_folder quality_profile metadata_profile monitor search of
        Inl e \<Rightarrow> Inl e
      | Inr payload \<Rightarrow>
          (case post payload of
             PostRaises \<Rightarrow> Inr (False, [ErrorAdding])
           | PostReturns status_code error \<Rightarrow>
               if 400 \<le> status_code \<and> status_code < 600 then
                 (if status_code = 400 then
                    (case error of
                       None \<Rightarrow> Inl JSONDecodeError
                     | Some text \<Rightarrow>
                         if contains ''Artist already exists'' text
                         then Inr (False, [AlreadyInLidarr])
                         else Inr (False, [ErrorAdding]))
                  else Inr (False, [ErrorAdding]))
               else Inr (True, [])))"

text \<open>A search result and two replies of the library manager, for concrete runs.\<close>

definition found_artist :: json where
  "found_artist = JObj [(''foreignArtistId'', JStr ''f59c5520-5f46-4d2c-b2c4-822eabf53419''),
                        (''artistName'', JStr ''Nina'')]"

definition duplicate_reply :: "json \<Rightarrow> artist_post" where
  "duplicate_reply payload = PostReturns 400 (Some ''{'message': 'Artist already exists'}'')"

definition server_error_reply :: "json \<Rightarrow> artist_post" where
  "server_error_reply payload = PostReturns 500 None"

section \<open>Streaming presence (spotify\_playlist\_checker.py)\<close>

text \<open>
  The part of Python's regular expressions that \<^verbatim>\<open>SERVICE_PATTERNS\<close> uses: a pattern
  is a sequence of literal characters, a backslash making the next character literal,
  and the dot, which stands for any character but a newline. \<^verbatim>\<open>re.search\<close> with
  \<^verbatim>\<open>re.IGNORECASE\<close> looks for the pattern at every position, letters compared without
  regard to (ASCII) case. No pattern of \<^verbatim>\<open>SERVICE_PATTERNS\<close> ends in a backslash or
  uses another special character.
\<close>

datatype re_atom = Lit char | AnyChar

fun re_parse :: "string \<Rightarrow> re_atom list" where
  "re_parse [] = []"
| "re_parse [c] = (if c = CHR ''.'' then [AnyChar] else [Lit c])"
| "re_parse (c # d # cs) =
     (if c = CHR 0x5C then Lit d # re_parse cs
      else if c = CHR ''.'' then AnyChar # re_parse (d # cs)
      else Lit c # re_parse (d # cs))"

fun re_match_at :: "re_atom list \<Rightarrow> string \<Rightarrow> bool" where
  "re_match_at [] s = True"
| "re_match_at (a # atoms) [] = False"
| "re_match_at (Lit c # atoms) (d # ds) = (ascii_lower c = ascii_lower d \<and> re_match_at atoms ds)"
| "re_match_at (AnyChar # atoms) (d # ds) = (d \<noteq> CHR 0x0A \<and> re_match_at atoms ds)"

fun re_search_atoms :: "re_atom list \<Rightarrow> string \<Rightarrow> bool" where
  "re_search_atoms atoms [] = re_match_at atoms []"
| "re_search_atoms atoms (d # ds) = (re_match_at atoms (d # ds) \<or> re_search_atoms atoms ds)"

definition re_search :: "string \<Rightarrow> string \<Rightarrow> bool" where
  "re_search pattern s = re_search_atoms (re_parse pattern) s"

text \<open>
  \<^verbatim>\<open>
  SERVICE_PATTERNS = {
      "spotify": r"open\.spotify\.com/artist/",
      "tidal": r"tidal\.com/artist/",
      "deezer": r"deezer\.com/artist/",
  }
  \<close>
  \<open>CHR 0x5C\<close> is the backslash.
\<close>

definition spotify_pattern :: string where
  "spotify_pattern = ''open'' @ [CHR 0x5C] @ ''.spotify'' @ [CHR 0x5C] @ ''.com/artist/''"

definition tidal_pattern :: string where
  "tidal_pattern = ''tidal'' @ [CHR 0x5C] @ ''.com/artist/''"

definition deezer_pattern :: string where
  "deezer_pattern = ''deezer'' @ [CHR 0x5C] @ ''.com/artist/''"

definition SERVICE_PATTERNS :: "(string \<times> string) list" where
  "SERVICE_PATTERNS =
     [(''spotify'', spotify_pattern), (''tidal'', tidal_pattern), (''deezer'', deezer_pattern)]"

text \<open>
  \<^verbatim>\<open>
  for service, pattern in SERVICE_PATTERNS.items():
      if re.search(pattern, url, re.IGNORECASE):
          services[service] = True
  \<close>
\<close>

fun match_services :: "(string \<times> string) list \<Rightarrow> string \<Rightarrow> (string \<times> bool) list \<Rightarrow> (string \<times> bool) list" where
  "match_services [] url services = services"
| "match_services ((service, pattern) # patterns) url services =
     match_services patterns url
       (if re_search pattern url then AList.update service True services else services)"

text \<open>
  The body of \<^verbatim>\<open>for relation in relations\<close>:
  \<^verbatim>\<open>
  if relation.get("type") == "streaming" and "url" in relation:
      url = relation["url"].get("resource", "")
  \<close>
  followed by the loop over the patterns. \<^verbatim>\<open>re.search\<close> raises \<^verbatim>\<open>TypeError\<close> when
  \<^verbatim>\<open>url\<close> is not a string.
\<close>

definition relation_step :: "json \<Rightarrow> (string \<times> bool) list \<Rightarrow> py_error + (string \<times> bool) list" where
  "relation_step relation services =
     (case relation of
        JObj kvs \<Rightarrow>
          if obj_get kvs ''type'' JNull = JStr ''streaming'' then
            (case map_of kvs ''url'' of
               None \<Rightarrow> Inr services
             | Some u \<Rightarrow>
                 (case dict_get u ''resource'' (JStr []) of
                    Inl e \<Rightarrow> Inl e
                  | Inr (JStr url) \<Rightarrow> Inr (match_services SERVICE_PATTERNS url services)
                  | Inr _ \<Rightarrow> Inl TypeError))
          else Inr services
      | _ \<Rightarrow> Inl AttributeError)"

fun relations_loop :: "json list \<Rightarrow> (string \<times> bool) list \<Rightarrow> py_error + (string \<times> bool) list" where
  "relations_loop [] services = Inr services"
| "relations_loop (relation # relations) services =
     (case relation_step relation services of
        Inl e \<Rightarrow> Inl e
      | Inr services' \<Rightarrow> relations_loop relations services')"

text \<open>
  \<^verbatim>\<open>check_streaming_services\<close> starts from
  \<^verbatim>\<open>{"spotify": False, "tidal": False, "deezer": False}\<close>.
\<close>

definition check_streaming_services :: "json list \<Rightarrow> py_error + (string \<times> bool) list" where
  "check_streaming_services relations =
     relations_loop relations [(''spotify'', False), (''tidal'', False), (''deezer'', False)]"

text \<open>
  The spec's wording, for comparison with the code: the relation is of type
  ``streaming'' and has a \<^verbatim>\<open>url.resource\<close> matching the pattern.
\<close>

definition links_to :: "string \<Rightarrow> json \<Rightarrow> bool" where
  "links_to pattern relation =
     (case relation of
        JObj kvs \<Rightarrow>
          obj_get kvs ''type'' JNull = JStr ''streaming'' \<and>
          (case map_of kvs ''url'' of
             Some (JObj u) \<Rightarrow>
               (case obj_get u ''resource'' (JStr []) of
                  JStr url \<Rightarrow> re_search pattern url
                | _ \<Rightarrow> False)
           | _ \<Rightarrow> False)
      | _ \<Rightarrow> False)"

text \<open>
  A relation as MusicBrainz sends it: an object; if it is a streaming relation with a
  \<^verbatim>\<open>url\<close>, that is an object whose \<^verbatim>\<open>resource\<close>, if present, is a string.
\<close>

definition well_formed_relation :: "json \<Rightarrow> bool" where
  "well_formed_relation relation =
     (case relation of
        JObj kvs \<Rightarrow>
          (if obj_get kvs ''type'' JNull = JStr ''streaming'' then
             (case map_of kvs ''url'' of
                None \<Rightarrow> True
              | Some (JObj u) \<Rightarrow> (case obj_get u ''resource'' (JStr []) of JStr url \<Rightarrow> True | _ \<Rightarrow> False)
              | Some _ \<Rightarrow> False)
           else True)
      | _ \<Rightarrow> False)"

text \<open>The spec's example: a Spotify link and a link to no configured platform.\<close>

definition streaming_relation :: "string \<Rightarrow> json" where
  "streaming_relation url =
     JObj [(''type'', JStr ''streaming''), (''url'', JObj [(''resource'', JStr url)])]"

definition spotify_and_bandcamp :: "json list" where
  "spotify_and_bandcamp =
     [streaming_relation ''https://Open.Spotify.com/artist/4Z8W'',
      streaming_relation ''https://nina.bandcamp.com/'']"

section \<open>The summary report (spotify\_playlist\_checker.py)\<close>

text \<open>
  One entry of \<^verbatim>\<open>results\<close>, the dictionary \<^verbatim>\<open>main\<close> appends for each artist.
\<close>

record artist_result =
  name :: string
  spotify_id :: string
  mb_found :: bool
  services :: "(string \<times> bool) list"

text \<open>
  The lines \<^verbatim>\<open>print_summary\<close> prints after its header: the total, one line per
  coverage count with its percentage (an exact number here; the source prints it with one
  decimal), and the artists missing from a service.
\<close>

datatype summary_line =
    TotalArtists nat
  | Coverage string nat real
  | MissingCount nat
  | MissingFrom string "string list"
  | AndMore nat

text \<open>\<^verbatim>\<open>r["services"][service]\<close>.\<close>

definition service_flag :: "artist_result \<Rightarrow> string \<Rightarrow> py_error + bool" where
  "service_flag r service =
     (case map_of (services r) service of None \<Rightarrow> Inl KeyError | Some v \<Rightarrow> Inr v)"

text \<open>\<^verbatim>\<open>sum(1 for r in results if r["services"][service])\<close>.\<close>

fun count_with :: "string \<Rightarrow> artist_result list \<Rightarrow> py_error + nat" where
  "count_with service [] = Inr 0"
| "count_with service (r # rs) =
     (case service_flag r service of
        Inl e \<Rightarrow> Inl e
      | Inr v \<Rightarrow>
          (case count_with service rs of
             Inl e \<Rightarrow> Inl e
           | Inr n \<Rightarrow> Inr (if v then n + 1 else n)))"

text \<open>\<^verbatim>\<open>all(r["services"].values())\<close>.\<close>

definition has_all_services :: "artist_result \<Rightarrow> bool" where
  "has_all_services r = list_all (\<lambda>kv. snd kv) (services r)"

text \<open>
  \<^verbatim>\<open>n/total*100\<close>: true division, which raises \<^verbatim>\<open>ZeroDivisionError\<close> when
  \<^verbatim>\<open>total\<close> is \<open>0\<close>. There is no guard in the source.
\<close>

definition percent :: "nat \<Rightarrow> nat \<Rightarrow> py_error + real" where
  "percent n tot =
     (if tot = 0 then Inl ZeroDivisionError else Inr (real n / real tot * 100))"

definition coverage_line :: "string \<Rightarrow> nat \<Rightarrow> nat \<Rightarrow> py_error + summary_line" where
  "coverage_line label n tot =
     (case percent n tot of Inl e \<Rightarrow> Inl e | Inr p \<Rightarrow> Inr (Coverage label n p))"

text \<open>
  The list of artists found in MusicBrainz but missing from a service: its length, its
  first ten entries, and how many more there are.
\<close>

definition missing_lines :: "artist_result list \<Rightarrow> summary_line list" where
  "missing_lines results =
     (let missing_any = filter (\<lambda>r. mb_found r \<and> \<not> has_all_services r) results in
      if missing_any = [] then []
      else MissingCount (length missing_any)
           # map (\<lambda>r. MissingFrom (name r) (map fst (filter (\<lambda>kv. \<not> snd kv) (services r))))
               (take 10 missing_any)
           @ (if length missing_any > 10 then [AndMore (length missing_any - 10)] else []))"

text \<open>
  \<^verbatim>\<open>print_summary\<close>: the counts are computed first, then the lines are printed in
  order; the first percentage is computed after ``Total artists'' has been printed.
\<close>

definition print_summary :: "artist_result list \<Rightarrow> py_error + summary_line list" where
  "print_summary results =
     (let tot = length results;
          in_mb = length (filter mb_found results) in
      case count_with ''spotify'' results of Inl e \<Rightarrow> Inl e | Inr has_spotify \<Rightarrow>
      case count_with ''tidal'' results of Inl e \<Rightarrow> Inl e | Inr has_tidal \<Rightarrow>
      case count_with ''deezer'' results of Inl e \<Rightarrow> Inl e | Inr has_deezer \<Rightarrow>
      let has_all = length (filter has_all_services results) in
      case coverage_line ''Found in MusicBrainz'' in_mb tot of Inl e \<Rightarrow> Inl e | Inr l1 \<Rightarrow>
      case coverage_line ''Spotify'' has_spotify tot of Inl e \<Rightarrow> Inl e | Inr l2 \<Rightarrow>
      case coverage_line ''Tidal'' has_tidal tot of Inl e \<Rightarrow> Inl e | Inr l3 \<Rightarrow>
      case coverage_line ''Deezer'' has_deezer tot of Inl e \<Rightarrow> Inl e | Inr l4 \<Rightarrow>
      case coverage_line ''All three'' has_all tot of Inl e \<Rightarrow> Inl e | Inr l5 \<Rightarrow>
      Inr ([TotalArtists tot, l1, l2, l3, l4, l5] @ missing_lines results))"

text \<open>
  The end of \<^verbatim>\<open>main\<close> for \<^verbatim>\<open>--output summary\<close> (the default):
  \<^verbatim>\<open>
  if args.missing_only:
      results = [r for r in results if not all(r["services"].values())]
  ...
  print_summary(results)
  \<close>
\<close>

definition main_summary :: "bool \<Rightarrow> artist_result list \<Rightarrow> py_error + summary_line list" where
  "main_summary missing_only results =
     print_summary (if missing_only then filter (\<lambda>r. \<not> has_all_services r) results else results)"

text \<open>The entry has the three service keys, as every entry built by \<^verbatim>\<open>main\<close> has.\<close>

definition has_service_keys :: "artist_result \<Rightarrow> bool" where
  "has_service_keys r \<longleftrightarrow>
     map_of (services r) ''spotify'' \<noteq> None \<and> map_of (services r) ''tidal'' \<noteq> None \<and>
     map_of (services r) ''deezer'' \<noteq> None"

text \<open>Two concrete entries.\<close>

definition everywhere :: artist_result where
  "everywhere = \<lparr>name = ''Nina'', spotify_id = ''4Z8W'', mb_found = True,
                  services = [(''spotify'', True), (''tidal'', True), (''deezer'', True)]\<rparr>"

definition spotify_only :: artist_result where
  "spotify_only = \<lparr>name = ''Odd'', spotify_id = ''7QqX'', mb_found = True,
                    services = [(''spotify'', True), (''tidal'', False), (''deezer'', False)]\<rparr>"

section \<open>Properties of the rate limiter\<close>

lemma issue_times_append: "issue_times (xs @ ys) = issue_times xs @ issue_times ys"
  by (induction xs rule: issue_times.induct) simp_all

lemma spaced_snoc:
  "spaced d (ts @ [t]) = (spaced d ts \<and> (ts \<noteq> [] \<longrightarrow> d \<le> t - last ts))"
  by (induction d ts rule: spaced.induct) simp_all

lemma spaced_nth:
  "spaced d ts = (\<forall>i. Suc i < length ts \<longrightarrow> d \<le> ts ! Suc i - ts ! i)"
proof (induction d ts rule: spaced.induct)
  case (3 d t u ts)
  show ?case
  proof
    assume a: "spaced d (t # u # ts)"
    show "\<forall>i. Suc i < length (t # u # ts) \<longrightarrow> d \<le> (t # u # ts) ! Suc i - (t # u # ts) ! i"
    proof (intro allI impI)
      fix i assume "Suc i < length (t # u # ts)"
      then show "d \<le> (t # u # ts) ! Suc i - (t # u # ts) ! i"
        using a 3 by (cases i) auto
    qed
  next
    assume a: "\<forall>i. Suc i < length (t # u # ts) \<longrightarrow> d \<le> (t # u # ts) ! Suc i - (t # u # ts) ! i"
    then have "d \<le> u - t" by (auto dest: spec [of _ 0])
    moreover have "\<forall>i. Suc i < length (u # ts) \<longrightarrow> d \<le> (u # ts) ! Suc i - (u # ts) ! i"
      using a by (auto dest: spec [of _ "Suc i" for i])
    ultimately show "spaced d (t # u # ts)" using 3 by simp
  qed
qed simp_all

text \<open>One pass through \<^verbatim>\<open>_rate_limit\<close> moves the stamp forward by at least the interval.\<close>

lemma rate_limit_last:
  "0 \<le> extra \<Longrightarrow> last_request_time w + MB_RATE_LIMIT \<le> last_request_time (rate_limit extra w)"
  by (simp add: rate_limit_def time_sleep_def Let_def)

lemma rate_limit_clock: "clock (rate_limit extra w) = last_request_time (rate_limit extra w)"
  by (simp add: rate_limit_def Let_def)

lemma rate_limit_issue_times: "issue_times (trace (rate_limit extra w)) = issue_times (trace w)"
  by (simp add: rate_limit_def time_sleep_def Let_def issue_times_append)

lemma client_request_issue_times:
  "issue_times (trace (client_request env w)) =
     issue_times (trace w) @ [last_request_time (client_request env w)]"
  by (simp add: client_request_def session_get_def issue_times_append rate_limit_issue_times
      rate_limit_clock)

lemma client_request_last:
  "0 \<le> oversleep env \<Longrightarrow>
     last_request_time w + MB_RATE_LIMIT \<le> last_request_time (client_request env w)"
  using rate_limit_last [of "oversleep env" w] by (simp add: client_request_def session_get_def)

lemma stamped_request:
  assumes "stamped w" and "0 \<le> oversleep env"
  shows "stamped (client_request env (pass_time (idle env) w))"
proof -
  let ?w0 = "pass_time (idle env) w"
  let ?w1 = "client_request env ?w0"
  have same: "issue_times (trace ?w0) = issue_times (trace w)"
    "last_request_time ?w0 = last_request_time w"
    by (simp_all add: pass_time_def)
  have step: "last_request_time w + MB_RATE_LIMIT \<le> last_request_time ?w1"
    using client_request_last [OF assms(2), of ?w0] same by simp
  have pos: "0 \<le> MB_RATE_LIMIT" by (simp add: MB_RATE_LIMIT_def)
  have its: "issue_times (trace ?w1) = issue_times (trace w) @ [last_request_time ?w1]"
    using client_request_issue_times [of env ?w0] same by simp
  have old: "\<forall>t \<in> set (issue_times (trace w)). t \<le> last_request_time w"
    using assms(1) by (simp add: stamped_def)
  have "issue_times (trace w) \<noteq> [] \<longrightarrow>
          MB_RATE_LIMIT \<le> last_request_time ?w1 - last (issue_times (trace w))"
    using old step by (fastforce dest: last_in_set)
  moreover have "\<forall>t \<in> set (issue_times (trace w)). t \<le> last_request_time ?w1"
    using old step pos by fastforce
  ultimately show ?thesis
    using assms(1) unfolding stamped_def its by (simp add: spaced_snoc)
qed

lemma run_calls_stamped:
  "stamped w \<Longrightarrow> \<forall>env \<in> set envs. 0 \<le> oversleep env \<Longrightarrow> stamped (run_calls w envs)"
  by (induction envs arbitrary: w) (simp_all add: stamped_request)

lemma run_calls_count:
  "length (issue_times (trace (run_calls w envs))) = length (issue_times (trace w)) + length envs"
  by (induction envs arbitrary: w) (simp_all add: client_request_issue_times pass_time_def)

lemma stamps_append: "stamps (xs @ ys) = stamps xs @ stamps ys"
  by (induction xs rule: stamps.induct) simp_all

text \<open>
  The recorded stamps are the times at which the requests are issued: nothing happens
  between the assignment in \<^verbatim>\<open>_rate_limit\<close> and the call of \<^verbatim>\<open>session.get\<close> but
  building the parameters.
\<close>

lemma client_request_stamps:
  "stamps (trace (client_request env w)) = stamps (trace w) @ [last_request_time (client_request env w)]"
  by (simp add: client_request_def session_get_def rate_limit_def time_sleep_def Let_def
      stamps_append)

lemma run_calls_stamps:
  "stamps (trace w) = issue_times (trace w) \<Longrightarrow>
     stamps (trace (run_calls w envs)) = issue_times (trace (run_calls w envs))"
  by (induction envs arbitrary: w)
     (simp_all add: client_request_stamps client_request_issue_times pass_time_def)

lemma run_three_calls:
  "trace (run_calls (init_client 100) [slow_call, quick_call, later_call]) =
     [SetLast 100, Get 100, Done 105, SetLast 105, Get 105, Done (421 / 4),
      Sleep (1 / 4), SetLast 106, Get 106, Done (425 / 4)]"
  by (simp add: slow_call_def quick_call_def later_call_def init_client_def client_request_def
      pass_time_def rate_limit_def session_get_def time_sleep_def MB_RATE_LIMIT_def Let_def)

text \<open>
  Claim C1. A fresh client makes any sequence of \<open>N\<close> calls; the caller may idle for any
  time between them, each request may take any time, and a sleep never returns early.
  Then \<open>N\<close> requests are issued, and each is issued at least \<open>MB_RATE_LIMIT\<close> (one second)
  after the one before it: \<open>timestamp[i+1] - timestamp[i] \<ge> interval\<close> for all \<open>i\<close>.
\<close>

theorem rate_limited_requests_spaced:
  assumes "\<forall>env \<in> set envs. 0 \<le> oversleep env"
  shows "length (issue_times (trace (run_calls (init_client now) envs))) = length envs \<and>
         (\<forall>i. Suc i < length envs \<longrightarrow>
            MB_RATE_LIMIT \<le> issue_times (trace (run_calls (init_client now) envs)) ! Suc i
                             - issue_times (trace (run_calls (init_client now) envs)) ! i)"
proof -
  have "stamped (init_client now)" by (simp add: stamped_def init_client_def)
  then have "stamped (run_calls (init_client now) envs)"
    using assms by (rule run_calls_stamped)
  then have sp: "spaced MB_RATE_LIMIT (issue_times (trace (run_calls (init_client now) envs)))"
    by (simp add: stamped_def)
  have len: "length (issue_times (trace (run_calls (init_client now) envs))) = length envs"
    using run_calls_count [of "init_client now" envs] by (simp add: init_client_def)
  from sp len show ?thesis by (simp add: spaced_nth)
qed

theorem rate_limited_requests_spaced_witness:
  "0 \<le> oversleep slow_call \<and> 0 \<le> oversleep quick_call \<and> 0 \<le> oversleep later_call \<and>
   issue_times (trace (run_calls (init_client 100) [slow_call, quick_call, later_call]))
     = [100, 105, 106] \<and>
   MB_RATE_LIMIT \<le>
     issue_times (trace (run_calls (init_client 100) [slow_call, quick_call, later_call])) ! 1
     - issue_times (trace (run_calls (init_client 100) [slow_call, quick_call, later_call])) ! 0 \<and>
   MB_RATE_LIMIT \<le>
     issue_times (trace (run_calls (init_client 100) [slow_call, quick_call, later_call])) ! 2
     - issue_times (trace (run_calls (init_client 100) [slow_call, quick_call, later_call])) ! 1"
proof -
  let ?ts = "issue_times (trace (run_calls (init_client 100) [slow_call, quick_call, later_call]))"
  have pos: "\<forall>env \<in> set [slow_call, quick_call, later_call]. 0 \<le> oversleep env"
    by (simp add: slow_call_def quick_call_def later_call_def)
  have ts: "?ts = [100, 105, 106]"
    unfolding run_three_calls by simp
  from rate_limited_requests_spaced [OF pos, of 100]
  have gaps: "\<forall>i. Suc i < 3 \<longrightarrow> MB_RATE_LIMIT \<le> ?ts ! Suc i - ?ts ! i"
    by simp
  have g0: "MB_RATE_LIMIT \<le> ?ts ! 1 - ?ts ! 0"
    using gaps [rule_format, of 0] by simp
  have g1: "MB_RATE_LIMIT \<le> ?ts ! 2 - ?ts ! 1"
    using gaps [rule_format, of 1] by (simp add: numeral_2_eq_2)
  show ?thesis using pos ts g0 g1 by simp
qed

text \<open>
  Claim C4, as the spec words it, fails: \<^verbatim>\<open>_rate_limit\<close> runs first in both request
  methods, so the stamp is assigned before \<^verbatim>\<open>session.get\<close> is called. A response that
  takes five seconds does not delay the next call: it is issued the moment the response
  has arrived.
\<close>

theorem stamp_after_issue_counterexample:
  "\<not> updated_after_issue (trace (client_request slow_call (init_client 100))) \<and>
   trace (run_calls (init_client 100) [slow_call, quick_call]) =
     [SetLast 100, Get 100, Done 105, SetLast 105, Get 105, Done (421 / 4)]"
  by (simp add: slow_call_def quick_call_def init_client_def client_request_def
      pass_time_def rate_limit_def session_get_def time_sleep_def MB_RATE_LIMIT_def Let_def)

lemma rate_limit_trace:
  "\<exists>pre. trace (rate_limit extra w) = trace w @ pre @ [SetLast (clock (rate_limit extra w))] \<and>
         (pre = [] \<or> (\<exists>d. pre = [Sleep d]))"
  by (simp add: rate_limit_def time_sleep_def Let_def)

lemma not_updated_after_issue_shape:
  "pre = [] \<or> (\<exists>d. pre = [Sleep d]) \<Longrightarrow> \<not> updated_after_issue (pre @ SetLast t # es)"
  by auto

text \<open>
  Claim C4, amended. Every call through the client appends to the trace at most one
  sleep, then the assignment of the stamp, then the request issued at that same clock
  reading \<open>t\<close>, then its return: the stamp is assigned before the request is issued and
  the request leaves it unchanged, so it holds the time the request was issued, not the
  time its response arrived. The next call (with an exact sleep) is issued at the later of
  the time the response arrived and \<open>t + MB_RATE_LIMIT\<close>.
\<close>

theorem stamp_precedes_request:
  "\<exists>pre t. trace (client_request env w) =
             trace w @ pre @ [SetLast t, Get t, Done (t + duration env)] \<and>
           (pre = [] \<or> (\<exists>d. pre = [Sleep d])) \<and>
           \<not> updated_after_issue (pre @ [SetLast t, Get t, Done (t + duration env)]) \<and>
           last_request_time (client_request env w) = t \<and>
           clock (client_request env w) = t + duration env \<and>
           last_request_time (rate_limit 0 (client_request env w)) =
             max (t + duration env) (t + MB_RATE_LIMIT)"
proof -
  obtain pre where pre: "trace (rate_limit (oversleep env) w) =
       trace w @ pre @ [SetLast (clock (rate_limit (oversleep env) w))]"
    and shape: "pre = [] \<or> (\<exists>d. pre = [Sleep d])"
    using rate_limit_trace by blast
  let ?t = "clock (rate_limit (oversleep env) w)"
  have "trace (client_request env w) =
          trace w @ pre @ [SetLast ?t, Get ?t, Done (?t + duration env)]"
    by (simp add: client_request_def session_get_def pre)
  moreover have "\<not> updated_after_issue (pre @ [SetLast ?t, Get ?t, Done (?t + duration env)])"
    using shape by (rule not_updated_after_issue_shape)
  moreover have "last_request_time (client_request env w) = ?t"
    by (simp add: client_request_def session_get_def rate_limit_clock)
  moreover have "clock (client_request env w) = ?t + duration env"
    by (simp add: client_request_def session_get_def)
  moreover have "last_request_time (rate_limit 0 (client_request env w)) =
             max (?t + duration env) (?t + MB_RATE_LIMIT)"
    by (simp add: client_request_def session_get_def rate_limit_def time_sleep_def Let_def
        rate_limit_clock [unfolded rate_limit_def Let_def] max_def)
  ultimately show ?thesis using shape by blast
qed

section \<open>Properties of the album import\<close>

lemma obj_get_update:
  "obj_get (AList.update k v kvs) k' d = (if k' = k then v else obj_get kvs k' d)"
  by (simp add: obj_get_def update_conv')

lemma backfill_field_obj:
  "backfill_field k dflt (JObj kvs) =
     Inr (JObj (if truthy (obj_get kvs k JNull) then kvs else AList.update k dflt kvs))"
  by (simp add: backfill_field_def)

lemma map_of_backfilled:
  "map_of (if truthy (obj_get kvs k JNull) then kvs else AList.update k dflt kvs) k' =
     (if k' = k \<and> \<not> truthy (obj_get kvs k JNull) then Some dflt else map_of kvs k')"
  by (simp add: update_conv')

lemma obj_get_backfilled:
  "k' \<noteq> k \<Longrightarrow>
     obj_get (if truthy (obj_get kvs k JNull) then kvs else AList.update k dflt kvs) k' d =
       obj_get kvs k' d"
  by (simp add: obj_get_update)

text \<open>
  What is posted carries the backfilled record: whenever \<^verbatim>\<open>requests.post\<close> is called,
  the payload's \<^verbatim>\<open>artist\<close> is the matched album's artist sub-record after the backfill.
\<close>

lemma submit_album_posts_backfilled:
  assumes "submit_album cfg env mb_id (JObj album) = Inr (ok, Some payload)"
  shows "\<exists>artist'. ensure_artist_fields cfg (obj_get album ''artist'' JNull) = Inr artist' \<and>
                   payload = album_payload cfg mb_id album artist'"
  using assms
  by (auto simp: submit_album_def Let_def split: if_splits sum.splits artist_post.splits
      http_reply.splits)

text \<open>
  Claim C2, amended. When the matched album's artist sub-record is a dictionary, the
  backfill succeeds and changes exactly the fields among quality profile id, metadata
  profile id, root folder path and monitored flag whose value is missing or falsy
  (\<^verbatim>\<open>None\<close>, \<^verbatim>\<open>False\<close>, \<open>0\<close>, the empty string, an empty list or dictionary): these
  get the run-wide default. Every field with a truthy value, and every other field, is
  left as the remote service sent it.
\<close>

theorem backfill_missing_or_falsy:
  "\<exists>kvs'. ensure_artist_fields cfg (JObj kvs) = Inr (JObj kvs') \<and>
          (\<forall>k. map_of kvs' k =
                 (if truthy (obj_get kvs k JNull) then map_of kvs k
                  else (case map_of (run_defaults cfg) k of
                          Some dflt \<Rightarrow> Some dflt
                        | None \<Rightarrow> map_of kvs k)))"
proof -
  define k1 where "k1 = (if truthy (obj_get kvs ''qualityProfileId'' JNull) then kvs
             else AList.update ''qualityProfileId'' (JInt (QUALITY_PROFILE_ID cfg)) kvs)"
  define k2 where "k2 = (if truthy (obj_get k1 ''metadataProfileId'' JNull) then k1
             else AList.update ''metadataProfileId'' (JInt (METADATA_PROFILE_ID cfg)) k1)"
  define k3 where "k3 = (if truthy (obj_get k2 ''rootFolderPath'' JNull) then k2
             else AList.update ''rootFolderPath'' (JStr (ROOT_FOLDER_PATH cfg)) k2)"
  define k4 where "k4 = (if truthy (obj_get k3 ''monitored'' JNull) then k3
             else AList.update ''monitored'' (JBool True) k3)"
  have run: "ensure_artist_fields cfg (JObj kvs) = Inr (JObj k4)"
    by (simp only: ensure_artist_fields_def backfill_field_obj sum.case k1_def k2_def k3_def k4_def)
  have g2: "obj_get k1 k d = obj_get kvs k d" if "k \<noteq> ''qualityProfileId''" for k d
    unfolding k1_def using that by (rule obj_get_backfilled)
  have g3: "obj_get k2 k d = obj_get kvs k d"
    if "k \<noteq> ''qualityProfileId''" "k \<noteq> ''metadataProfileId''" for k d
    unfolding k2_def using that by (simp add: obj_get_update g2)
  have g4: "obj_get k3 k d = obj_get kvs k d"
    if "k \<noteq> ''qualityProfileId''" "k \<noteq> ''metadataProfileId''" "k \<noteq> ''rootFolderPath''" for k d
    unfolding k3_def using that by (simp add: obj_get_update g3)
  have m1: "map_of k1 k = (if k = ''qualityProfileId'' \<and> \<not> truthy (obj_get kvs k JNull)
                           then Some (JInt (QUALITY_PROFILE_ID cfg)) else map_of kvs k)" for k
    unfolding k1_def map_of_backfilled by auto
  have m2: "map_of k2 k = (if k = ''metadataProfileId'' \<and> \<not> truthy (obj_get kvs k JNull)
                           then Some (JInt (METADATA_PROFILE_ID cfg)) else map_of k1 k)" for k
    unfolding k2_def map_of_backfilled by (auto simp: g2)
  have m3: "map_of k3 k = (if k = ''rootFolderPath'' \<and> \<not> truthy (obj_get kvs k JNull)
                           then Some (JStr (ROOT_FOLDER_PATH cfg)) else map_of k2 k)" for k
    unfolding k3_def map_of_backfilled by (auto simp: g3)
  have m4: "map_of k4 k = (if k = ''monitored'' \<and> \<not> truthy (obj_get kvs k JNull)
                           then Some (JBool True) else map_of k3 k)" for k
    unfolding k4_def map_of_backfilled by (auto simp: g4)
  have "map_of k4 k =
          (if truthy (obj_get kvs k JNull) then map_of kvs k
           else (case map_of (run_defaults cfg) k of
                   Some dflt \<Rightarrow> Some dflt
                 | None \<Rightarrow> map_of kvs k))" for k
    unfolding m4 m3 m2 m1 by (simp add: run_defaults_def)
  with run show ?thesis by blast
qed


lemma ensure_remote_artist:
  "ensure_artist_fields default_config remote_artist =
     Inr (JObj [(''artistName'', JStr ''Nina''), (''qualityProfileId'', JInt 1),
                (''monitored'', JBool True), (''rootFolderPath'', JStr ''/data''),
                (''metadataProfileId'', JInt 1)])"
  by (simp add: ensure_artist_fields_def backfill_field_def remote_artist_def default_config_def
      obj_get_def)

lemma remote_artist_truthy: "truthy remote_artist"
  by (simp add: remote_artist_def)

text \<open>
  Claim C2 as stated fails: the remote service populated \<^verbatim>\<open>monitored\<close> with
  \<^verbatim>\<open>False\<close> and \<^verbatim>\<open>qualityProfileId\<close> with \<open>0\<close>; the posted artist record has
  \<^verbatim>\<open>True\<close> and the default profile \<open>1\<close>.
\<close>

theorem backfill_overwrites_falsy_counterexample:
  "map_of [(''artistName'', JStr ''Nina''), (''qualityProfileId'', JInt 0),
           (''monitored'', JBool False), (''rootFolderPath'', JStr ''/data'')] ''monitored''
     = Some (JBool False) \<and>
   posted_artist (add_album_to_lidarr default_config
       (stub_lidarr (JArr [JObj [(''album'', remote_album ''abc'')]])) ''abc'') =
     Some (JObj [(''artistName'', JStr ''Nina''), (''qualityProfileId'', JInt 1),
                 (''monitored'', JBool True), (''rootFolderPath'', JStr ''/data''),
                 (''metadataProfileId'', JInt 1)])"
  by (simp add: add_album_to_lidarr_def check_album_exists_def search_and_add_def
      submit_album_def stub_lidarr_def remote_album_def result_album_def is_our_album_def
      album_payload_def posted_artist_def obj_get_def ensure_remote_artist remote_artist_truthy)

text \<open>
  Claim C3 as stated fails: the test is \<^verbatim>\<open>foreign_id.endswith(mb_id)\<close>, so a result
  whose identifier \<^verbatim>\<open>abc\<close> is a suffix of the input \<^verbatim>\<open>ns:abc\<close> is not matched and the
  import fails, while the same result with the identifier equal to the input is added.
\<close>

theorem suffix_of_input_counterexample:
  "suffix ''abc'' ''ns:abc'' \<and>
   scan_results ''ns:abc'' [JObj [(''album'', remote_album ''abc'')]] = Inr None \<and>
   fst (add_album_to_lidarr default_config
          (stub_lidarr (JArr [JObj [(''album'', remote_album ''abc'')]])) ''ns:abc'') = Some False \<and>
   fst (add_album_to_lidarr default_config
          (stub_lidarr (JArr [JObj [(''album'', remote_album ''ns:abc'')]])) ''ns:abc'') = Some True"
  by (simp add: add_album_to_lidarr_def check_album_exists_def search_and_add_def
      submit_album_def stub_lidarr_def remote_album_def result_album_def is_our_album_def
      obj_get_def ensure_remote_artist remote_artist_truthy suffix_to_prefix)

lemma scan_results_append:
  "scan_results mb_id pre = Inr None \<Longrightarrow> scan_results mb_id (pre @ rest) = scan_results mb_id rest"
  by (induction pre) (auto split: sum.splits if_splits)

lemma is_our_album_suffix:
  "map_of kvs ''foreignAlbumId'' = Some (JStr (qual @ mb_id)) \<Longrightarrow>
     is_our_album mb_id (JObj kvs) = Inr True"
  by (simp add: is_our_album_def obj_get_def suffix_def)

lemma album_payload_foreign_id:
  "album_payload cfg mb_id (AList.update ''foreignAlbumId'' v kvs) artist_data =
     album_payload cfg mb_id kvs artist_data"
  by (simp add: album_payload_def obj_get_update)

lemma submit_album_foreign_id:
  "submit_album cfg env mb_id (JObj (AList.update ''foreignAlbumId'' v kvs)) =
     submit_album cfg env mb_id (JObj kvs)"
proof -
  have artist: "obj_get (AList.update ''foreignAlbumId'' v kvs) ''artist'' JNull =
                  obj_get kvs ''artist'' JNull"
    by (simp add: obj_get_update)
  show ?thesis
    unfolding submit_album_def Let_def json.case album_payload_foreign_id artist by (rule refl)
qed

text \<open>
  Claim C3, amended. A search result whose foreign album identifier ends with the input
  identifier (the input, possibly preceded by a namespace qualifier) is matched, and the
  first such result in result order wins: if no earlier result matches or raises, the
  scan returns this result's album whatever follows it. It is then submitted exactly as
  if its identifier were equal to the input.
\<close>

theorem first_suffix_match_wins:
  assumes "scan_results mb_id pre = Inr None"
    and "result_album r = Inr (JObj kvs, artist)"
    and "map_of kvs ''foreignAlbumId'' = Some (JStr (qual @ mb_id))"
  shows "scan_results mb_id (pre @ r # post) = Inr (Some (JObj kvs, artist)) \<and>
         submit_album cfg env mb_id (JObj kvs) =
           submit_album cfg env mb_id (JObj (AList.update ''foreignAlbumId'' (JStr mb_id) kvs))"
proof -
  have "is_our_album mb_id (JObj kvs) = Inr True"
    using assms(3) by (rule is_our_album_suffix)
  then have "scan_results mb_id (r # post) = Inr (Some (JObj kvs, artist))"
    using assms(2) by simp
  then have "scan_results mb_id (pre @ r # post) = Inr (Some (JObj kvs, artist))"
    using scan_results_append [OF assms(1)] by simp
  then show ?thesis by (simp add: submit_album_foreign_id)
qed

lemma remote_album_result:
  "result_album (JObj [(''album'', remote_album fid)]) =
     Inr (JObj [(''title'', JStr ''Pastel''), (''foreignAlbumId'', JStr fid),
                (''artist'', remote_artist)], JNull)"
  by (simp add: result_album_def remote_album_def obj_get_def)

theorem first_suffix_match_wins_witness:
  "scan_results ''abc'' [JObj [(''album'', remote_album ''zzz'')]] = Inr None \<and>
   scan_results ''abc''
     ([JObj [(''album'', remote_album ''zzz'')]] @ JObj [(''album'', remote_album ''ns:abc'')]
        # [other_album]) =
     Inr (Some (JObj [(''title'', JStr ''Pastel''), (''foreignAlbumId'', JStr ''ns:abc''),
                      (''artist'', remote_artist)], JNull))"
proof -
  have pre: "scan_results ''abc'' [JObj [(''album'', remote_album ''zzz'')]] = Inr None"
    by (simp add: remote_album_result is_our_album_def obj_get_def suffix_to_prefix)
  have fid: "map_of [(''title'', JStr ''Pastel''), (''foreignAlbumId'', JStr ''ns:abc''),
                     (''artist'', remote_artist)] ''foreignAlbumId'' = Some (JStr (''ns:'' @ ''abc''))"
    by simp
  from first_suffix_match_wins [OF pre remote_album_result fid, of "[other_album]"] pre
  show ?thesis by blast
qed

section \<open>Properties of extraction and of the batch\<close>

lemma uuid_not_empty: "uuid \<noteq> []"
  by (simp add: uuid_def)

lemma py_strip_uuid: "py_strip uuid = uuid"
  by (simp add: py_strip_def uuid_def is_space_def)

lemma extract_tagged: "extract_from_tree tagged_tree = Some uuid"
  by (simp add: extract_from_tree_def tag_text_def et_find_def tagged_tree_def uuid_not_empty
      py_strip_uuid)

lemma extract_untagged: "extract_from_tree untagged_tree = None"
  by (simp add: extract_from_tree_def tag_text_def et_find_def untagged_tree_def)

lemma add_stub_added:
  "fst (add_album_to_lidarr cfg (stub_lidarr (JArr [JObj [(''album'', remote_album uuid)]])) uuid)
     = Some True"
  by (simp add: add_album_to_lidarr_def check_album_exists_def search_and_add_def
      submit_album_def stub_lidarr_def remote_album_def result_album_def is_our_album_def
      obj_get_def remote_artist_def ensure_artist_fields_def backfill_field_def
      split: sum.splits)

lemma add_stub_existing:
  "fst (add_album_to_lidarr cfg
     ((stub_lidarr (JArr []))\<lparr>get_album := Reply 200 (Some (JArr [remote_album uuid]))\<rparr>) uuid)
     = None"
  by (simp add: add_album_to_lidarr_def check_album_exists_def stub_lidarr_def remote_album_def
      obj_get_def)

lemma add_stub_failing:
  "fst (add_album_to_lidarr cfg ((stub_lidarr (JArr []))\<lparr>get_search := (\<lambda>term. Raises)\<rparr>) uuid)
     = Some False"
  by (simp add: add_album_to_lidarr_def check_album_exists_def search_and_add_def stub_lidarr_def)

lemma extract_total:
  "parses_or_malformed f \<Longrightarrow> \<exists>r. extract_musicbrainz_id f = Inr r"
  by (auto simp: parses_or_malformed_def extract_musicbrainz_id_def split: sum.splits)

lemma process_item_cases:
  "process_item cfg c item = Inr c' \<Longrightarrow>
     c' = c\<lparr>added := added c + 1\<rparr> \<or> c' = c\<lparr>already_exists := already_exists c + 1\<rparr> \<or>
     c' = c\<lparr>failed := failed c + 1\<rparr> \<or> c' = c\<lparr>skipped := skipped c + 1\<rparr>"
  by (auto simp: process_item_def split: sum.splits option.splits if_splits bool.splits)

lemma process_item_total: "process_item cfg c item = Inr c' \<Longrightarrow> counted c' = counted c + 1"
  by (drule process_item_cases) (auto simp: counted_def)

lemma process_item_returns:
  "parses_or_malformed (nfo item) \<Longrightarrow> \<exists>c'. process_item cfg c item = Inr c'"
  by (drule extract_total)
     (auto simp: process_item_def split: sum.splits option.splits if_splits bool.splits)

lemma main_loop_total:
  "main_loop cfg c items = Inr c' \<Longrightarrow> counted c' = counted c + length items"
proof (induction items arbitrary: c)
  case Nil
  then show ?case by simp
next
  case (Cons item items)
  from Cons.prems obtain c1 where step: "process_item cfg c item = Inr c1"
    and rest: "main_loop cfg c1 items = Inr c'"
    by (auto split: sum.splits)
  from Cons.IH [OF rest] process_item_total [OF step] show ?case by simp
qed

lemma main_loop_returns:
  "\<forall>item \<in> set items. parses_or_malformed (nfo item) \<Longrightarrow> \<exists>c'. main_loop cfg c items = Inr c'"
proof (induction items arbitrary: c)
  case Nil
  then show ?case by simp
next
  case (Cons item items)
  then obtain c1 where "process_item cfg c item = Inr c1"
    using process_item_returns [of item cfg c] by auto
  moreover obtain c' where "main_loop cfg c1 items = Inr c'"
    using Cons by fastforce
  ultimately show ?case by simp
qed

text \<open>
  Where the defect below does not strike: \<^verbatim>\<open>main\<close> has no handler at the batch
  boundary, and items are isolated only because the functions it calls catch their own
  exceptions. For every batch whose sidecar files all parse or raise \<^verbatim>\<open>ParseError\<close>
  (malformed markup), identifier extraction returns an identifier or ``not found''
  without raising, also when the fallback cannot read the file;
  \<^verbatim>\<open>add_album_to_lidarr\<close> never raises; so each item changes the counters, the loop
  goes on with the next item, and the run completes.
\<close>

lemma batch_continues_when_files_parse:
  assumes "\<forall>item \<in> set items. parses_or_malformed (nfo item)"
  shows "(\<forall>item \<in> set items. \<exists>r. extract_musicbrainz_id (nfo item) = Inr r) \<and>
         (\<forall>item \<in> set items. \<forall>c rest. \<exists>c'. process_item cfg c item = Inr c' \<and>
              main_loop cfg c (item # rest) = main_loop cfg c' rest) \<and>
         (\<exists>c. main cfg items = Inr c)"
proof (intro conjI ballI allI)
  fix item assume "item \<in> set items"
  with assms show "\<exists>r. extract_musicbrainz_id (nfo item) = Inr r"
    by (simp add: extract_total)
next
  fix item c rest assume "item \<in> set items"
  with assms obtain c' where "process_item cfg c item = Inr c'"
    using process_item_returns [of item cfg c] by auto
  then show "\<exists>c'. process_item cfg c item = Inr c' \<and>
              main_loop cfg c (item # rest) = main_loop cfg c' rest"
    by simp
next
  show "\<exists>c. main cfg items = Inr c"
    unfolding main_def using assms by (rule main_loop_returns)
qed

lemma process_added: "process_item cfg c item_added = Inr (c\<lparr>added := added c + 1\<rparr>)"
  by (simp add: process_item_def item_added_def extract_musicbrainz_id_def extract_tagged
      uuid_not_empty add_stub_added)

lemma process_untagged: "process_item cfg c item_untagged = Inr (c\<lparr>skipped := skipped c + 1\<rparr>)"
  by (simp add: process_item_def item_untagged_def extract_musicbrainz_id_def extract_untagged)

lemma process_existing:
  "process_item cfg c item_existing = Inr (c\<lparr>already_exists := already_exists c + 1\<rparr>)"
  by (simp add: process_item_def item_existing_def extract_musicbrainz_id_def extract_tagged
      uuid_not_empty add_stub_existing)

lemma process_failing: "process_item cfg c item_failing = Inr (c\<lparr>failed := failed c + 1\<rparr>)"
  by (simp add: process_item_def item_failing_def extract_musicbrainz_id_def extract_tagged
      uuid_not_empty add_stub_failing)

lemma process_malformed: "process_item cfg c item_malformed = Inr (c\<lparr>skipped := skipped c + 1\<rparr>)"
  by (simp add: process_item_def item_malformed_def extract_musicbrainz_id_def
      extract_by_regex_def)

lemma extract_unclosed: "extract_by_regex (Inr unclosed_text) = Some uuid"
  by code_simp

lemma process_recovered: "process_item cfg c item_recovered = Inr (c\<lparr>added := added c + 1\<rparr>)"
  by (simp add: process_item_def item_recovered_def extract_musicbrainz_id_def extract_unclosed
      uuid_not_empty add_stub_added)

lemma process_unreadable: "process_item cfg c item_unreadable = Inl OSError"
  by (simp add: process_item_def item_unreadable_def extract_musicbrainz_id_def)

lemma main_mixed:
  "main cfg [item_malformed, item_added, item_existing, item_failing, item_untagged] =
     Inr \<lparr>added = 1, failed = 1, skipped = 2, already_exists = 1\<rparr>"
  by (simp add: main_def process_added process_untagged process_existing process_failing
      process_malformed)

lemma batch_continues_example:
  "parses_or_malformed (nfo item_malformed) \<and> parses_or_malformed (nfo item_recovered) \<and>
   parses_or_malformed (nfo item_added) \<and>
   extract_musicbrainz_id (nfo item_malformed) = Inr None \<and>
   extract_musicbrainz_id (nfo item_recovered) = Inr (Some uuid) \<and>
   main default_config [item_malformed, item_recovered, item_added] =
     Inr \<lparr>added = 2, failed = 0, skipped = 1, already_exists = 0\<rparr>"
proof -
  have ok: "\<forall>item \<in> set [item_malformed, item_recovered, item_added].
              parses_or_malformed (nfo item)"
    by (simp add: parses_or_malformed_def item_malformed_def item_recovered_def item_added_def)
  from batch_continues_when_files_parse [OF ok, of default_config]
  obtain c where "main default_config [item_malformed, item_recovered, item_added] = Inr c"
    by blast
  moreover have "main default_config [item_malformed, item_recovered, item_added] =
     Inr \<lparr>added = 2, failed = 0, skipped = 1, already_exists = 0\<rparr>"
    by (simp add: main_def process_added process_malformed process_recovered)
  moreover have "extract_musicbrainz_id (nfo item_malformed) = Inr None"
    by (simp add: item_malformed_def extract_musicbrainz_id_def extract_by_regex_def)
  moreover have "extract_musicbrainz_id (nfo item_recovered) = Inr (Some uuid)"
    by (simp add: item_recovered_def extract_musicbrainz_id_def extract_unclosed)
  ultimately show ?thesis using ok by simp
qed

text \<open>
  Claim C5: an unreadable or malformed sidecar file yields a not-found or failed outcome
  for that item only; identifier extraction returns ``not found'' rather than raising,
  and iteration always continues to the next item. The code breaks this for a file that
  cannot be opened: \<^verbatim>\<open>ET.parse\<close> raises \<^verbatim>\<open>OSError\<close>, which
  \<^verbatim>\<open>except ET.ParseError\<close> does not catch, although the docstring promises
  \<^verbatim>\<open>None\<close> otherwise and the fallback does catch read errors. Extraction raises,
  nothing in \<^verbatim>\<open>main\<close> catches it, and the item after it, which alone would be added,
  is never processed.
\<close>

theorem unreadable_file_aborts_run:
  "extract_musicbrainz_id (nfo item_unreadable) = Inl OSError \<and>
   main default_config [item_unreadable, item_added] = Inl OSError \<and>
   main default_config [item_added] = Inr \<lparr>added = 1, failed = 0, skipped = 0, already_exists = 0\<rparr>"
proof -
  have "extract_musicbrainz_id (nfo item_unreadable) = Inl OSError"
    by (simp add: item_unreadable_def extract_musicbrainz_id_def)
  moreover have "main default_config [item_unreadable, item_added] = Inl OSError"
    by (simp add: main_def process_unreadable)
  moreover have "main default_config [item_added] =
      Inr \<lparr>added = 1, failed = 0, skipped = 0, already_exists = 0\<rparr>"
    by (simp add: main_def process_added)
  ultimately show ?thesis by simp
qed

text \<open>
  Where the defect does not strike: whenever \<^verbatim>\<open>main\<close> reaches its summary, the four
  counters sum to the number of enumerated files; it reaches the summary whenever every
  file parses or is malformed; and each file that is processed without an exception
  increments exactly one of the four counters by one.
\<close>

lemma counters_sum_to_total:
  "(main cfg items = Inr c \<longrightarrow>
      added c + already_exists c + failed c + skipped c = length items) \<and>
   ((\<forall>item \<in> set items. parses_or_malformed (nfo item)) \<longrightarrow>
      (\<exists>c'. main cfg items = Inr c' \<and>
            added c' + already_exists c' + failed c' + skipped c' = length items)) \<and>
   (process_item cfg c0 item = Inr c1 \<longrightarrow>
      c1 = c0\<lparr>added := added c0 + 1\<rparr> \<or> c1 = c0\<lparr>already_exists := already_exists c0 + 1\<rparr> \<or>
      c1 = c0\<lparr>failed := failed c0 + 1\<rparr> \<or> c1 = c0\<lparr>skipped := skipped c0 + 1\<rparr>)"
proof (intro conjI impI)
  assume "main cfg items = Inr c"
  then show "added c + already_exists c + failed c + skipped c = length items"
    using main_loop_total [of cfg _ items c] by (simp add: main_def counted_def)
next
  assume "\<forall>item \<in> set items. parses_or_malformed (nfo item)"
  then obtain c' where c': "main cfg items = Inr c'"
    unfolding main_def using main_loop_returns by blast
  then have "added c' + already_exists c' + failed c' + skipped c' = length items"
    using main_loop_total [of cfg _ items c'] by (simp add: main_def counted_def)
  with c' show "\<exists>c'. main cfg items = Inr c' \<and>
            added c' + already_exists c' + failed c' + skipped c' = length items"
    by blast
next
  assume "process_item cfg c0 item = Inr c1"
  then show "c1 = c0\<lparr>added := added c0 + 1\<rparr> \<or> c1 = c0\<lparr>already_exists := already_exists c0 + 1\<rparr> \<or>
      c1 = c0\<lparr>failed := failed c0 + 1\<rparr> \<or> c1 = c0\<lparr>skipped := skipped c0 + 1\<rparr>"
    by (rule process_item_cases)
qed

lemma counters_sum_to_total_example:
  "main default_config [item_malformed, item_added, item_existing, item_failing, item_untagged] =
     Inr \<lparr>added = 1, failed = 1, skipped = 2, already_exists = 1\<rparr> \<and>
   (1::nat) + 1 + 1 + 2 = length [item_malformed, item_added, item_existing, item_failing, item_untagged]"
  using counters_sum_to_total [of default_config
      "[item_malformed, item_added, item_existing, item_failing, item_untagged]"
      "\<lparr>added = 1, failed = 1, skipped = 2, already_exists = 1\<rparr>"]
  by (simp add: main_mixed)

text \<open>
  Claim C6: in every run each enumerated file increments exactly one of the four
  counters, so the final counters sum to the number of files. The exception that
  \<^verbatim>\<open>extract_musicbrainz_id\<close> lets escape for a file that cannot be opened breaks
  this. Of three enumerated files the first is counted as added; the second
  cannot be opened, so the loop body raises and increments no counter; the run ends
  before the summary, the third file is never counted, and there are no final counters.
\<close>

theorem aborted_run_has_no_final_counters:
  "length [item_added, item_unreadable, item_existing] = 3 \<and>
   process_item default_config \<lparr>added = 1, failed = 0, skipped = 0, already_exists = 0\<rparr>
     item_unreadable = Inl OSError \<and>
   main default_config [item_added, item_unreadable, item_existing] = Inl OSError \<and>
   \<not> (\<exists>c. main default_config [item_added, item_unreadable, item_existing] = Inr c)"
proof -
  have "main default_config [item_added, item_unreadable, item_existing] = Inl OSError"
    by (simp add: main_def process_added process_unreadable)
  then show ?thesis by (simp add: process_unreadable)
qed

lemma match_tagged_id_length: "match_tagged_id tag s = Some token \<Longrightarrow> length token = 36"
  by (auto simp: match_tagged_id_def Let_def split: if_splits)

lemma re_search_tagged_id_length:
  "re_search_tagged_id tag s = Some token \<Longrightarrow> length token = 36"
  by (induction s) (auto split: option.splits dest: match_tagged_id_length)

text \<open>
  Claim C7 holds of the fallback, which returns 36-character tokens only (lemma
  \<open>re_search_tagged_id_length\<close>), but the structured path tests \<^verbatim>\<open>mb_id.text\<close>
  before stripping it: a release-group tag that holds only spaces makes the extractor
  return the empty string, and the album identifier next to it is not looked at.
\<close>

theorem blank_tag_yields_empty_string:
  "extract_musicbrainz_id \<lparr>et_parse = Inr blank_tag_tree, read_text = Inr blank_tag_text\<rparr>
     = Inr (Some [])"
  by (simp add: extract_musicbrainz_id_def extract_from_tree_def tag_text_def et_find_def
      blank_tag_tree_def py_strip_def is_space_def)

section \<open>Properties of adding an artist\<close>

lemma found_artist_payload:
  "\<exists>payload. artist_payload found_artist rf qp mp m s = Inr payload"
  by (simp add: artist_payload_def found_artist_def)

lemma contains_dup: "contains ''Artist already exists'' ''{'message': 'Artist already exists'}''"
  by simp

text \<open>
  Claim C8 as stated fails: for the duplicate-artist reply and for a server error
  \<^verbatim>\<open>add_artist\<close> returns the same value, \<^verbatim>\<open>False\<close>; only the printed message differs,
  which a caller does not see.
\<close>

theorem duplicate_same_result_counterexample:
  "add_artist duplicate_reply found_artist ''/music'' 1 1 True False = Inr (False, [AlreadyInLidarr]) \<and>
   add_artist server_error_reply found_artist ''/music'' 1 1 True False = Inr (False, [ErrorAdding]) \<and>
   map_sum id fst (add_artist duplicate_reply found_artist ''/music'' 1 1 True False) =
   map_sum id fst (add_artist server_error_reply found_artist ''/music'' 1 1 True False)"
  by (simp add: add_artist_def artist_payload_def found_artist_def duplicate_reply_def
      server_error_reply_def)

text \<open>
  Claim C8, amended. When the library manager answers the artist-creation \<^verbatim>\<open>POST\<close>
  with HTTP 400 and a body whose printed form contains ``Artist already exists'',
  \<^verbatim>\<open>add_artist\<close> does not raise, prints the already-in-Lidarr warning instead of the
  error message, and returns \<^verbatim>\<open>False\<close>, the value it also returns for a failure.
\<close>

theorem duplicate_artist_warns_and_returns_false:
  assumes "artist_payload artist_data root_folder quality_profile metadata_profile monitor search
             = Inr payload"
    and "post payload = PostReturns 400 (Some text)"
    and "contains ''Artist already exists'' text"
  shows "add_artist post artist_data root_folder quality_profile metadata_profile monitor search
           = Inr (False, [AlreadyInLidarr])"
  using assms by (simp add: add_artist_def)

theorem duplicate_artist_warns_and_returns_false_witness:
  "contains ''Artist already exists'' ''{'message': 'Artist already exists'}'' \<and>
   duplicate_reply (JObj []) = PostReturns 400 (Some ''{'message': 'Artist already exists'}'') \<and>
   add_artist duplicate_reply found_artist ''/music'' 1 1 True False
     = Inr (False, [AlreadyInLidarr])"
proof -
  obtain payload where
    payload: "artist_payload found_artist ''/music'' 1 1 True False = Inr payload"
    using found_artist_payload by blast
  have reply: "duplicate_reply payload =
      PostReturns 400 (Some ''{'message': 'Artist already exists'}'')"
    by (simp add: duplicate_reply_def)
  from duplicate_artist_warns_and_returns_false [where post = duplicate_reply, OF payload reply contains_dup]
  show ?thesis by (simp add: duplicate_reply_def)
qed

section \<open>Properties of the presence report\<close>

lemma match_services_patterns:
  "match_services SERVICE_PATTERNS url [(''spotify'', a), (''tidal'', b), (''deezer'', c)] =
     [(''spotify'', a \<or> re_search spotify_pattern url),
      (''tidal'', b \<or> re_search tidal_pattern url),
      (''deezer'', c \<or> re_search deezer_pattern url)]"
  by (simp add: SERVICE_PATTERNS_def)

lemma relation_step_well_formed:
  assumes "well_formed_relation r"
  shows "relation_step r [(''spotify'', a), (''tidal'', b), (''deezer'', c)] =
     Inr [(''spotify'', a \<or> links_to spotify_pattern r),
          (''tidal'', b \<or> links_to tidal_pattern r),
          (''deezer'', c \<or> links_to deezer_pattern r)]"
  using assms
  by (auto simp: well_formed_relation_def relation_step_def links_to_def match_services_patterns
      split: json.splits option.splits if_splits)

lemma relation_step_returns:
  assumes "relation_step r [(''spotify'', a), (''tidal'', b), (''deezer'', c)] = Inr report"
  shows "report =
     [(''spotify'', a \<or> links_to spotify_pattern r),
      (''tidal'', b \<or> links_to tidal_pattern r),
      (''deezer'', c \<or> links_to deezer_pattern r)]"
  using assms
  by (auto simp: relation_step_def links_to_def match_services_patterns
      split: json.splits option.splits if_splits sum.splits)

lemma relations_loop_well_formed:
  "\<forall>r \<in> set relations. well_formed_relation r \<Longrightarrow>
   relations_loop relations [(''spotify'', a), (''tidal'', b), (''deezer'', c)] =
     Inr [(''spotify'', a \<or> list_ex (links_to spotify_pattern) relations),
          (''tidal'', b \<or> list_ex (links_to tidal_pattern) relations),
          (''deezer'', c \<or> list_ex (links_to deezer_pattern) relations)]"
proof (induction relations arbitrary: a b c)
  case Nil
  then show ?case by simp
next
  case (Cons r relations)
  then have "well_formed_relation r" by simp
  from relation_step_well_formed [OF this] Cons show ?case
    by simp
qed

lemma relations_loop_returns:
  "relations_loop relations [(''spotify'', a), (''tidal'', b), (''deezer'', c)] = Inr report \<Longrightarrow>
   report =
     [(''spotify'', a \<or> list_ex (links_to spotify_pattern) relations),
      (''tidal'', b \<or> list_ex (links_to tidal_pattern) relations),
      (''deezer'', c \<or> list_ex (links_to deezer_pattern) relations)]"
proof (induction relations arbitrary: a b c)
  case Nil
  then show ?case by simp
next
  case (Cons r relations)
  from Cons.prems obtain report1 where
    step: "relation_step r [(''spotify'', a), (''tidal'', b), (''deezer'', c)] = Inr report1"
    and rest: "relations_loop relations report1 = Inr report"
    by (auto split: sum.splits)
  have report1: "report1 = [(''spotify'', a \<or> links_to spotify_pattern r),
                  (''tidal'', b \<or> links_to tidal_pattern r),
                  (''deezer'', c \<or> links_to deezer_pattern r)]"
    using step by (rule relation_step_returns)
  have "report =
     [(''spotify'', (a \<or> links_to spotify_pattern r) \<or> list_ex (links_to spotify_pattern) relations),
      (''tidal'', (b \<or> links_to tidal_pattern r) \<or> list_ex (links_to tidal_pattern) relations),
      (''deezer'', (c \<or> links_to deezer_pattern r) \<or> list_ex (links_to deezer_pattern) relations)]"
    using rest unfolding report1 by (rule Cons.IH)
  then show ?case by simp
qed

text \<open>
  Claim C9. For every list of well-formed relations the presence report is returned, and
  whenever a report is returned, each platform is marked true if and only if some
  relation of type ``streaming'' has a \<^verbatim>\<open>url.resource\<close> matching that platform's pattern
  without regard to case: the disjunction over all relations. The spec's example, a
  Spotify link and a link matching no pattern, is the witness below.
\<close>

theorem presence_is_or_over_relations:
  "((\<forall>r \<in> set relations. well_formed_relation r) \<longrightarrow>
      check_streaming_services relations =
        Inr [(''spotify'', list_ex (links_to spotify_pattern) relations),
             (''tidal'', list_ex (links_to tidal_pattern) relations),
             (''deezer'', list_ex (links_to deezer_pattern) relations)]) \<and>
   (check_streaming_services relations = Inr report \<longrightarrow>
      report =
        [(''spotify'', list_ex (links_to spotify_pattern) relations),
         (''tidal'', list_ex (links_to tidal_pattern) relations),
         (''deezer'', list_ex (links_to deezer_pattern) relations)])"
  using relations_loop_well_formed [of relations False False False]
    relations_loop_returns [of relations False False False report]
  by (simp add: check_streaming_services_def)

lemma spotify_and_bandcamp_services:
  "check_streaming_services spotify_and_bandcamp =
     Inr [(''spotify'', True), (''tidal'', False), (''deezer'', False)]"
  by code_simp

theorem presence_is_or_over_relations_witness:
  "well_formed_relation (streaming_relation ''https://Open.Spotify.com/artist/4Z8W'') \<and>
   well_formed_relation (streaming_relation ''https://nina.bandcamp.com/'') \<and>
   list_ex (links_to spotify_pattern) spotify_and_bandcamp \<and>
   \<not> list_ex (links_to tidal_pattern) spotify_and_bandcamp \<and>
   \<not> list_ex (links_to deezer_pattern) spotify_and_bandcamp \<and>
   check_streaming_services spotify_and_bandcamp =
     Inr [(''spotify'', True), (''tidal'', False), (''deezer'', False)]"
proof -
  have wf1: "well_formed_relation (streaming_relation url)" for url
    by (simp add: well_formed_relation_def streaming_relation_def obj_get_def)
  then have wf: "\<forall>r \<in> set spotify_and_bandcamp. well_formed_relation r"
    by (simp add: spotify_and_bandcamp_def)
  from presence_is_or_over_relations [of spotify_and_bandcamp] wf
  have "check_streaming_services spotify_and_bandcamp =
        Inr [(''spotify'', list_ex (links_to spotify_pattern) spotify_and_bandcamp),
             (''tidal'', list_ex (links_to tidal_pattern) spotify_and_bandcamp),
             (''deezer'', list_ex (links_to deezer_pattern) spotify_and_bandcamp)]"
    by blast
  then show ?thesis
    using wf1 by (simp add: spotify_and_bandcamp_services)
qed

section \<open>Properties of the summary report\<close>

lemma percent_defined: "tot \<noteq> 0 \<Longrightarrow> percent n tot = Inr (real n / real tot * 100)"
  by (simp add: percent_def)

lemma count_with_returns:
  "\<forall>r \<in> set results. has_service_keys r \<Longrightarrow>
   service \<in> {''spotify'', ''tidal'', ''deezer''} \<Longrightarrow> \<exists>n. count_with service results = Inr n"
  by (induction results) (auto simp: service_flag_def has_service_keys_def)

lemma count_with_no_division:
  "count_with service results \<noteq> Inl ZeroDivisionError"
  by (induction results) (auto simp: service_flag_def split: option.splits sum.splits)

lemma print_summary_empty: "print_summary [] = Inl ZeroDivisionError"
  by (simp add: print_summary_def coverage_line_def percent_def)

lemma print_summary_nonempty_no_division:
  assumes "results \<noteq> []"
  shows "print_summary results \<noteq> Inl ZeroDivisionError"
  using assms count_with_no_division [of _ results]
  by (auto simp: print_summary_def coverage_line_def percent_def Let_def split: sum.splits)

lemma print_summary_returns:
  assumes "results \<noteq> []" and "\<forall>r \<in> set results. has_service_keys r"
  shows "\<exists>out. print_summary results = Inr out"
proof -
  from assms(2) obtain a b c where
    "count_with ''spotify'' results = Inr a" "count_with ''tidal'' results = Inr b"
    "count_with ''deezer'' results = Inr c"
    using count_with_returns [of results] by (metis insertCI)
  with assms(1) show ?thesis
    by (simp add: print_summary_def coverage_line_def percent_def Let_def)
qed

lemma filter_all_out:
  "\<forall>r \<in> set results. has_all_services r \<Longrightarrow> filter (\<lambda>r. \<not> has_all_services r) results = []"
  by (induction results) auto

text \<open>
  Claim C10. For a non-empty list of results \<^verbatim>\<open>print_summary\<close> never raises
  \<^verbatim>\<open>ZeroDivisionError\<close>, and it prints its report when every entry has the three
  service keys. On the empty list it raises \<^verbatim>\<open>ZeroDivisionError\<close>, and so does
  \<^verbatim>\<open>main\<close> with summary output when the playlist has no artists or when
  \<^verbatim>\<open>--missing-only\<close> filters every artist out; nothing catches it.
\<close>

theorem summary_divides_by_result_count:
  "(results \<noteq> [] \<longrightarrow> print_summary results \<noteq> Inl ZeroDivisionError) \<and>
   (results \<noteq> [] \<and> (\<forall>r \<in> set results. has_service_keys r) \<longrightarrow>
      (\<exists>out. print_summary results = Inr out)) \<and>
   print_summary [] = Inl ZeroDivisionError \<and>
   main_summary missing_only [] = Inl ZeroDivisionError \<and>
   ((\<forall>r \<in> set results. has_all_services r) \<longrightarrow>
      main_summary True results = Inl ZeroDivisionError)"
  using print_summary_nonempty_no_division [of results] print_summary_returns [of results]
  by (simp add: main_summary_def print_summary_empty filter_all_out)

lemma summary_of_two:
  "print_summary [everywhere, spotify_only] =
     Inr [TotalArtists 2, Coverage ''Found in MusicBrainz'' 2 100, Coverage ''Spotify'' 2 100,
          Coverage ''Tidal'' 1 50, Coverage ''Deezer'' 1 50, Coverage ''All three'' 1 50,
          MissingCount 1, MissingFrom ''Odd'' [''tidal'', ''deezer'']]"
  by (simp add: print_summary_def coverage_line_def percent_def Let_def everywhere_def
      spotify_only_def service_flag_def has_all_services_def missing_lines_def)

theorem summary_divides_by_result_count_witness:
  "[everywhere, spotify_only] \<noteq> [] \<and> has_service_keys everywhere \<and> has_service_keys spotify_only \<and>
   has_all_services everywhere \<and>
   print_summary [everywhere, spotify_only] =
     Inr [TotalArtists 2, Coverage ''Found in MusicBrainz'' 2 100, Coverage ''Spotify'' 2 100,
          Coverage ''Tidal'' 1 50, Coverage ''Deezer'' 1 50, Coverage ''All three'' 1 50,
          MissingCount 1, MissingFrom ''Odd'' [''tidal'', ''deezer'']] \<and>
   main_summary True [everywhere] = Inl ZeroDivisionError"
proof -
  have keys: "has_service_keys everywhere" "has_service_keys spotify_only"
    by (simp_all add: has_service_keys_def everywhere_def spotify_only_def)
  have all: "has_all_services everywhere"
    by (simp add: has_all_services_def everywhere_def)
  from summary_divides_by_result_count [of "[everywhere]" True] all
  have "main_summary True [everywhere] = Inl ZeroDivisionError" by simp
  moreover from summary_divides_by_result_count [of "[everywhere, spotify_only]" True] keys
  have "\<exists>out. print_summary [everywhere, spotify_only] = Inr out" by simp
  ultimately show ?thesis using keys all by (simp add: summary_of_two)
qed

end
